theory Spec2Isabelle
  imports Complex_Main "HOL-Library.Word" "HOL-Library.Multiset" "HOL-Library.AList"
begin

section \<open>Numbers: float64 and int64 values\<close>

text \<open>
  A float64 is an exact real or one of the three special values of IEEE arithmetic. A
  result of an operation whose exact value lies beyond the largest float64 overflows to an
  infinity, as numpy and Python have it; a division by zero in numpy does not raise, it
  yields an infinity or NaN. Rounding to the nearest float64 below that bound and the sign
  of zero are not modelled: the finite results are exact.
\<close>

datatype npfloat = Num real | PInf | NInf | NaN

text \<open>Exact results from \<open>2^1024 - 2^970\<close> on are rounded to infinity.\<close>

definition overflow_threshold :: real where
  "overflow_threshold = 2 ^ 1024 - 2 ^ 970"

definition fl :: "real \<Rightarrow> npfloat" where
  "fl x = (if overflow_threshold \<le> x then PInf
           else if x \<le> - overflow_threshold then NInf
           else Num x)"

fun f_neg :: "npfloat \<Rightarrow> npfloat" where
  "f_neg (Num a) = Num (- a)"
| "f_neg PInf = NInf"
| "f_neg NInf = PInf"
| "f_neg NaN = NaN"

fun f_add :: "npfloat \<Rightarrow> npfloat \<Rightarrow> npfloat" where
  "f_add (Num a) (Num b) = fl (a + b)"
| "f_add NaN _ = NaN"
| "f_add _ NaN = NaN"
| "f_add PInf NInf = NaN"
| "f_add NInf PInf = NaN"
| "f_add PInf _ = PInf"
| "f_add _ PInf = PInf"
| "f_add NInf _ = NInf"
| "f_add _ NInf = NInf"

definition f_sub :: "npfloat \<Rightarrow> npfloat \<Rightarrow> npfloat" where
  "f_sub a b = f_add a (f_neg b)"

fun f_mul :: "npfloat \<Rightarrow> npfloat \<Rightarrow> npfloat" where
  "f_mul (Num a) (Num b) = fl (a * b)"
| "f_mul NaN _ = NaN"
| "f_mul _ NaN = NaN"
| "f_mul PInf (Num b) = (if b = 0 then NaN else if 0 < b then PInf else NInf)"
| "f_mul NInf (Num b) = (if b = 0 then NaN else if 0 < b then NInf else PInf)"
| "f_mul (Num a) PInf = (if a = 0 then NaN else if 0 < a then PInf else NInf)"
| "f_mul (Num a) NInf = (if a = 0 then NaN else if 0 < a then NInf else PInf)"
| "f_mul PInf PInf = PInf"
| "f_mul NInf NInf = PInf"
| "f_mul PInf NInf = NInf"
| "f_mul NInf PInf = NInf"

text \<open>True division of arrays: a zero divisor gives an infinity, or NaN for \<open>0/0\<close>.\<close>

fun f_div :: "npfloat \<Rightarrow> npfloat \<Rightarrow> npfloat" where
  "f_div (Num a) (Num b) =
     (if b \<noteq> 0 then fl (a / b) else if a = 0 then NaN else if 0 < a then PInf else NInf)"
| "f_div NaN _ = NaN"
| "f_div _ NaN = NaN"
| "f_div (Num a) _ = Num 0"
| "f_div PInf (Num b) = (if 0 \<le> b then PInf else NInf)"
| "f_div NInf (Num b) = (if 0 \<le> b then NInf else PInf)"
| "f_div _ _ = NaN"

fun f_abs :: "npfloat \<Rightarrow> npfloat" where
  "f_abs (Num a) = Num \<bar>a\<bar>"
| "f_abs PInf = PInf"
| "f_abs NInf = PInf"
| "f_abs NaN = NaN"

fun f_max :: "npfloat \<Rightarrow> npfloat \<Rightarrow> npfloat" where
  "f_max (Num a) (Num b) = Num (max a b)"
| "f_max NaN _ = NaN"
| "f_max _ NaN = NaN"
| "f_max PInf _ = PInf"
| "f_max _ PInf = PInf"
| "f_max NInf b = b"
| "f_max a NInf = a"

fun f_sqrt :: "npfloat \<Rightarrow> npfloat" where
  "f_sqrt (Num a) = (if 0 \<le> a then Num (sqrt a) else NaN)"
| "f_sqrt PInf = PInf"
| "f_sqrt NInf = NaN"
| "f_sqrt NaN = NaN"

definition arctan2 :: "real \<Rightarrow> real \<Rightarrow> real" where
  "arctan2 y x =
     (if 0 < x then arctan (y / x)
      else if x < 0 then (if 0 \<le> y then arctan (y / x) + pi else arctan (y / x) - pi)
      else if 0 < y then pi / 2 else if y < 0 then - (pi / 2) else 0)"

fun f_arctan2 :: "npfloat \<Rightarrow> npfloat \<Rightarrow> npfloat" where
  "f_arctan2 (Num y) (Num x) = Num (arctan2 y x)"
| "f_arctan2 NaN _ = NaN"
| "f_arctan2 _ NaN = NaN"
| "f_arctan2 (Num y) PInf = Num 0"
| "f_arctan2 (Num y) NInf = (if 0 \<le> y then Num pi else Num (- pi))"
| "f_arctan2 PInf (Num x) = Num (pi / 2)"
| "f_arctan2 NInf (Num x) = Num (- (pi / 2))"
| "f_arctan2 PInf PInf = Num (pi / 4)"
| "f_arctan2 PInf NInf = Num (3 * pi / 4)"
| "f_arctan2 NInf PInf = Num (- (pi / 4))"
| "f_arctan2 NInf NInf = Num (- (3 * pi / 4))"

text \<open>\<open>a != b\<close> and \<open>a < b\<close> on float64: NaN differs from everything, itself included, and
  is below nothing.\<close>

definition f_ne :: "npfloat \<Rightarrow> npfloat \<Rightarrow> bool" where
  "f_ne a b = (a = NaN \<or> b = NaN \<or> a \<noteq> b)"

fun f_lt :: "npfloat \<Rightarrow> npfloat \<Rightarrow> bool" where
  "f_lt NaN _ = False"
| "f_lt _ NaN = False"
| "f_lt (Num a) (Num b) = (a < b)"
| "f_lt PInf _ = False"
| "f_lt _ PInf = True"
| "f_lt NInf (Num b) = True"
| "f_lt _ NInf = False"


text \<open>
  A number of the program is a 64-bit integer or a float64: the cells of an int64 or
  float64 column, the elements of a numpy array, and the numbers of a Python dict. Python's
  own integers are unbounded; the program only stores and reads them, and those that a
  frame holds in an int64 column fit in 64 bits, so a Python int is taken in that range.
  Arithmetic on two integers is numpy's on int64: it wraps around modulo \<open>2^64\<close>.
  An operation on an integer and a float, and every true division, is made on floats.
\<close>

type_synonym int64 = "64 word"

datatype scalar = Int64 int64 | Float64 npfloat

fun to_float :: "scalar \<Rightarrow> npfloat" where
  "to_float (Int64 i) = Num (real_of_int (sint i))"
| "to_float (Float64 x) = x"

fun is_int :: "scalar \<Rightarrow> bool" where
  "is_int (Int64 i) = True"
| "is_int (Float64 x) = False"

definition astype_float :: "scalar \<Rightarrow> scalar" where
  "astype_float v = Float64 (to_float v)"

fun np_add :: "scalar \<Rightarrow> scalar \<Rightarrow> scalar" where
  "np_add (Int64 a) (Int64 b) = Int64 (a + b)"
| "np_add a b = Float64 (f_add (to_float a) (to_float b))"

fun np_sub :: "scalar \<Rightarrow> scalar \<Rightarrow> scalar" where
  "np_sub (Int64 a) (Int64 b) = Int64 (a - b)"
| "np_sub a b = Float64 (f_sub (to_float a) (to_float b))"

fun np_mul :: "scalar \<Rightarrow> scalar \<Rightarrow> scalar" where
  "np_mul (Int64 a) (Int64 b) = Int64 (a * b)"
| "np_mul a b = Float64 (f_mul (to_float a) (to_float b))"

definition np_truediv :: "scalar \<Rightarrow> scalar \<Rightarrow> scalar" where
  "np_truediv a b = Float64 (f_div (to_float a) (to_float b))"

definition np_pow2 :: "scalar \<Rightarrow> scalar" where
  "np_pow2 a = np_mul a a"

text \<open>\<open>np.abs\<close> of the least int64 is itself: the negation wraps around.\<close>

fun np_abs :: "scalar \<Rightarrow> scalar" where
  "np_abs (Int64 a) = Int64 (if sint a < 0 then - a else a)"
| "np_abs (Float64 x) = Float64 (f_abs x)"

fun np_maximum :: "scalar \<Rightarrow> scalar \<Rightarrow> scalar" where
  "np_maximum (Int64 a) (Int64 b) = Int64 (if sint a \<le> sint b then b else a)"
| "np_maximum a b = Float64 (f_max (to_float a) (to_float b))"

definition np_sqrt :: "scalar \<Rightarrow> scalar" where
  "np_sqrt a = Float64 (f_sqrt (to_float a))"

definition np_arctan2 :: "scalar \<Rightarrow> scalar \<Rightarrow> scalar" where
  "np_arctan2 a b = Float64 (f_arctan2 (to_float a) (to_float b))"

fun np_ne :: "scalar \<Rightarrow> scalar \<Rightarrow> bool" where
  "np_ne (Int64 a) (Int64 b) = (a \<noteq> b)"
| "np_ne a b = f_ne (to_float a) (to_float b)"

text \<open>Python's \<open>v > 0\<close> on a number.\<close>

fun py_positive :: "scalar \<Rightarrow> bool" where
  "py_positive (Int64 a) = (0 < sint a)"
| "py_positive (Float64 x) = f_lt (Num 0) x"

section \<open>Objects: dicts, DataFrames and the store\<close>

text \<open>
  A Python dict of numbers is an association list in insertion order. A DataFrame is its
  list of column names and its rows; a row maps each column name to the cell's value.
\<close>

type_synonym pydict = "(string \<times> scalar) list"

type_synonym row = "string \<rightharpoonup> scalar"

record frame =
  columns :: "string list"
  rows :: "row list"

definition cell :: "row \<Rightarrow> string \<Rightarrow> scalar" where
  "cell r k = (case r k of Some v \<Rightarrow> v | None \<Rightarrow> Float64 NaN)"

definition add_column :: "string \<Rightarrow> string list \<Rightarrow> string list" where
  "add_column k cols = (if k \<in> set cols then cols else cols @ [k])"

text \<open>
  The dtype that pandas gives a column built from Python numbers: int64 when every record
  has an integer there, float64 as soon as one value is a float or is missing. In a float64
  column the integers are converted and a missing value is NaN.
\<close>

definition int_column :: "pydict list \<Rightarrow> string \<Rightarrow> bool" where
  "int_column ds k =
     list_all (\<lambda>d. case map_of d k of Some v \<Rightarrow> is_int v | None \<Rightarrow> False) ds"

text \<open>
  \<open>pd.DataFrame(list_of_dicts)\<close>: the columns are the keys of all the dicts, in the order
  they first occur; a key that a dict lacks gives NaN in that row.
\<close>

definition row_of_dict :: "pydict list \<Rightarrow> string list \<Rightarrow> pydict \<Rightarrow> row" where
  "row_of_dict ds cols d =
     (\<lambda>k. if k \<in> set cols
          then Some (case map_of d k of
                       Some v \<Rightarrow> if int_column ds k then v else astype_float v
                     | None \<Rightarrow> Float64 NaN)
          else None)"

definition frame_of_dicts :: "pydict list \<Rightarrow> frame" where
  "frame_of_dicts ds =
     (let cols = fold add_column (concat (map (map fst) ds)) []
      in \<lparr>columns = cols, rows = map (row_of_dict ds cols) ds\<rparr>)"


text \<open>
  Dicts and DataFrames are mutable objects that the program shares by reference, so they
  live in a store, addressed by position. The store also logs the calls made to the two
  trained models.
\<close>

datatype obj = Dict pydict | DataFrame frame

datatype call = Classifier_predict | Classifier_predict_proba | Regressor_predict

type_synonym addr = nat

record world =
  objs :: "obj list"
  calls :: "call list"

datatype error = KeyError string | ValueError | IndexError | BadAddress

definition alloc :: "world \<Rightarrow> obj \<Rightarrow> world \<times> addr" where
  "alloc w ob = (w\<lparr>objs := objs w @ [ob]\<rparr>, length (objs w))"

definition get_frame :: "world \<Rightarrow> addr \<Rightarrow> frame option" where
  "get_frame w a =
     (if a < length (objs w)
      then (case objs w ! a of DataFrame f \<Rightarrow> Some f | Dict _ \<Rightarrow> None)
      else None)"

definition get_dict :: "world \<Rightarrow> addr \<Rightarrow> pydict option" where
  "get_dict w a =
     (if a < length (objs w)
      then (case objs w ! a of Dict d \<Rightarrow> Some d | DataFrame _ \<Rightarrow> None)
      else None)"

text \<open>Assignment to columns of a DataFrame changes the object in place.\<close>

definition put_frame :: "world \<Rightarrow> addr \<Rightarrow> frame \<Rightarrow> world" where
  "put_frame w a f = w\<lparr>objs := (objs w)[a := DataFrame f]\<rparr>"

definition log_call :: "world \<Rightarrow> call \<Rightarrow> world" where
  "log_call w c = w\<lparr>calls := calls w @ [c]\<rparr>"

section \<open>Feature engineering (feature_engineering.py)\<close>

definition raw_columns :: "string list" where
  "raw_columns =
     [''largura'', ''Altura'', ''PeDireito'', ''fck'',
      ''N_top'', ''N_base'', ''Mx_top'', ''Mx_base'', ''My_top'', ''My_base'']"

definition engineered_columns :: "string list" where
  "engineered_columns =
     [''N_med'', ''Mx_med'', ''My_med'', ''dN'', ''dMx'', ''dMy'', ''Ac'', ''nu'',
      ''mu_x'', ''mu_y'', ''lambda_x'', ''lambda_y'', ''mu_total'', ''e_x'', ''e_y'',
      ''ratio_M_x'', ''ratio_M_y'', ''index_2nd_order_x'', ''index_2nd_order_y'',
      ''aspect_ratio'', ''theta_moment'']"

text \<open>\<open>df[k]\<close> raises KeyError when the frame has no column \<open>k\<close>.\<close>

fun first_missing :: "string list \<Rightarrow> string list \<Rightarrow> string option" where
  "first_missing cols [] = None"
| "first_missing cols (k # ks) = (if k \<in> set cols then first_missing cols ks else Some k)"

text \<open>
  The body of \<open>create_engineered_features\<close> on one row. Every operation of the source is
  elementwise over the columns, and all cells of a column have its dtype, so the column
  assignments are made row by row, in the order of the source; \<open>df\<close> is the row as updated
  so far. The Python constants \<open>2\<close>, \<open>100\<close> and \<open>0\<close> are integers, the others floats.
\<close>

definition engineer_row :: "row \<Rightarrow> row" where
  "engineer_row df0 =
    (let largura = cell df0 ''largura'';
         altura = cell df0 ''Altura'';
         pe_direito = cell df0 ''PeDireito'';
         fck = cell df0 ''fck'';
         N_top = cell df0 ''N_top'';
         N_base = cell df0 ''N_base'';
         Mx_top = cell df0 ''Mx_top'';
         Mx_base = cell df0 ''Mx_base'';
         My_top = cell df0 ''My_top'';
         My_base = cell df0 ''My_base'';
         df = df0(''N_med'' \<mapsto> np_truediv (np_add N_top N_base) (Int64 2));
         df = df(''Mx_med'' \<mapsto> np_truediv (np_add Mx_top Mx_base) (Int64 2));
         df = df(''My_med'' \<mapsto> np_truediv (np_add My_top My_base) (Int64 2));
         df = df(''dN'' \<mapsto> np_sub N_base N_top);
         df = df(''dMx'' \<mapsto> np_sub Mx_base Mx_top);
         df = df(''dMy'' \<mapsto> np_sub My_base My_top);
         N_max = np_maximum (np_abs N_top) (np_abs N_base);
         Mx_max = np_maximum (np_abs Mx_top) (np_abs Mx_base);
         My_max = np_maximum (np_abs My_top) (np_abs My_base);
         GAMMA_F = Float64 (Num 1.4);
         GAMMA_C = Float64 (Num 1.4);
         fcd = np_truediv (np_truediv fck GAMMA_C) (Float64 (Num 10));
         Ac = np_mul largura altura;
         df = df(''Ac'' \<mapsto> Ac);
         Nd = np_mul N_max GAMMA_F;
         df = df(''nu'' \<mapsto> np_truediv Nd (np_mul Ac fcd));
         Mxd = np_mul (np_mul Mx_max GAMMA_F) (Int64 100);
         Myd = np_mul (np_mul My_max GAMMA_F) (Int64 100);
         df = df(''mu_x'' \<mapsto> np_truediv Mxd (np_mul (np_mul Ac altura) fcd));
         df = df(''mu_y'' \<mapsto> np_truediv Myd (np_mul (np_mul Ac largura) fcd));
         df = df(''lambda_x'' \<mapsto> np_truediv (np_mul (Float64 (Num 3.46)) pe_direito) largura);
         df = df(''lambda_y'' \<mapsto> np_truediv (np_mul (Float64 (Num 3.46)) pe_direito) altura);
         df = df(''mu_total'' \<mapsto>
                np_sqrt (np_add (np_pow2 (cell df ''mu_x'')) (np_pow2 (cell df ''mu_y''))));
         df = df(''e_x'' \<mapsto> (if np_ne N_max (Int64 0) then np_truediv Mx_max N_max
                            else Float64 (Num 0)));
         df = df(''e_y'' \<mapsto> (if np_ne N_max (Int64 0) then np_truediv My_max N_max
                            else Float64 (Num 0)));
         eps = Float64 (Num (1 / 1000000));
         df = df(''ratio_M_x'' \<mapsto> np_truediv (cell df ''Mx_top'') (np_add (cell df ''Mx_base'') eps));
         df = df(''ratio_M_y'' \<mapsto> np_truediv (cell df ''My_top'') (np_add (cell df ''My_base'') eps));
         df = df(''index_2nd_order_x'' \<mapsto> np_mul (cell df ''nu'') (np_pow2 (cell df ''lambda_x'')));
         df = df(''index_2nd_order_y'' \<mapsto> np_mul (cell df ''nu'') (np_pow2 (cell df ''lambda_y'')));
         df = df(''aspect_ratio'' \<mapsto> np_maximum (np_truediv altura largura) (np_truediv largura altura));
         df = df(''theta_moment'' \<mapsto> np_arctan2 (cell df ''mu_y'') (cell df ''mu_x''))
     in df)"

definition engineer_frame :: "frame \<Rightarrow> frame" where
  "engineer_frame f =
     \<lparr>columns = fold add_column engineered_columns (columns f),
      rows = map engineer_row (rows f)\<rparr>"

text \<open>
  \<open>create_engineered_features(df)\<close>: the argument is copied first (\<open>df = df.copy()\<close>); the
  ten raw columns are read, which raises KeyError for the first one absent, before any
  column is assigned; the assignments then change the copy in place, and the copy is
  returned.
\<close>

definition create_engineered_features :: "world \<Rightarrow> addr \<Rightarrow> world \<times> (error + addr)" where
  "create_engineered_features w a =
     (case get_frame w a of
        None \<Rightarrow> (w, Inl BadAddress)
      | Some f \<Rightarrow>
          (let (w1, df) = alloc w (DataFrame f)
           in case first_missing (columns f) raw_columns of
                Some k \<Rightarrow> (w1, Inl (KeyError k))
              | None \<Rightarrow> (put_frame w1 df (engineer_frame f), Inr df)))"

section \<open>Two-stage predictor (predictor.py)\<close>

definition FEATURE_COLUMNS :: "string list" where
  "FEATURE_COLUMNS =
     [''fck'', ''PeDireito'', ''largura'', ''Altura'', ''Cobrimento'',
      ''N_top'', ''Mx_top'', ''My_top'', ''N_base'', ''Mx_base'', ''My_base'',
      ''N_med'', ''Mx_med'', ''My_med'', ''dN'', ''dMx'', ''dMy'',
      ''nu'', ''mu_x'', ''mu_y'', ''mu_total'', ''lambda_x'', ''lambda_y'',
      ''e_x'', ''e_y'',
      ''ratio_M_x'', ''ratio_M_y'', ''index_2nd_order_x'', ''index_2nd_order_y'',
      ''aspect_ratio'', ''theta_moment'']"

text \<open>
  The two trained models are loaded from disk and are opaque here. Each is a deterministic
  function of one row of the feature matrix, which the model reads as floats whatever the
  dtypes of the columns; a call on a matrix applies it to every row. The outputs are a
  label, and floats for the probability of class 1 and for the steel ratio.
\<close>

record models =
  classifier_predict :: "npfloat list \<Rightarrow> int"
  classifier_predict_proba :: "npfloat list \<Rightarrow> npfloat"
  regressor_predict :: "npfloat list \<Rightarrow> npfloat"

text \<open>\<open>df[list_of_columns]\<close>: the sub-matrix, or KeyError for an absent column.\<close>

definition select_columns :: "frame \<Rightarrow> string list \<Rightarrow> error + scalar list list" where
  "select_columns f ks =
     (case first_missing (columns f) ks of
        Some k \<Rightarrow> Inl (KeyError k)
      | None \<Rightarrow> Inr (map (\<lambda>r. map (cell r) ks) (rows f)))"

definition process_pillar_data :: "world \<Rightarrow> addr \<Rightarrow> world \<times> (error + addr)" where
  "process_pillar_data w df =
     (case get_frame w df of
        None \<Rightarrow> (w, Inl BadAddress)
      | Some f \<Rightarrow>
          (let (w1, df_processed) = alloc w (DataFrame f)
           in create_engineered_features w1 df_processed))"

record prediction =
  rho_predicted :: scalar
  As_predicted :: scalar
  As_actual :: scalar
  Ac :: scalar

record single_result = prediction +
  status :: string
  feasibility_prob :: npfloat
  message :: "string option"
  error :: "scalar option"
  error_pct :: "scalar option"

record batch_row = prediction +
  is_feasible :: int
  prob_feasible :: npfloat

definition predict_single :: "models \<Rightarrow> world \<Rightarrow> addr \<Rightarrow> world \<times> (error + single_result)" where
  "predict_single m w pillar_data_ref =
     (case get_dict w pillar_data_ref of
        None \<Rightarrow> (w, Inl BadAddress)
      | Some pillar_data \<Rightarrow>
          (let (w1, df) = alloc w (DataFrame (frame_of_dicts [pillar_data]));
               (w2, r) = process_pillar_data w1 df
           in case r of
                Inl e \<Rightarrow> (w2, Inl e)
              | Inr df_eng \<Rightarrow>
                  (case get_frame w2 df_eng of
                     None \<Rightarrow> (w2, Inl BadAddress)
                   | Some fe \<Rightarrow>
                       (case select_columns fe FEATURE_COLUMNS of
                          Inl e \<Rightarrow> (w2, Inl e)
                        | Inr X \<Rightarrow>
                            (case (rows fe, X) of
                               (r0 # _, x0 # _) \<Rightarrow>
                                 (let Ac0 = cell r0 ''Ac'';
                                      w3 = log_call w2 Classifier_predict;
                                      is_feasible0 = classifier_predict m (map to_float x0);
                                      w4 = log_call w3 Classifier_predict_proba;
                                      prob_feasible0 = classifier_predict_proba m (map to_float x0);
                                      as_actual = (case map_of pillar_data ''As'' of
                                                     Some v \<Rightarrow> v | None \<Rightarrow> Int64 0);
                                      result = \<lparr>rho_predicted = Float64 (Num 0),
                                                As_predicted = Float64 (Num 0),
                                                As_actual = as_actual, Ac = Ac0,
                                                status = (if is_feasible0 = 1 then ''Feasible''
                                                          else ''Infeasible''),
                                                feasibility_prob = prob_feasible0,
                                                message = None, error = None, error_pct = None\<rparr>
                                  in if is_feasible0 = 0
                                     then (w4, Inr (result\<lparr>rho_predicted := Float64 (Num 0),
                                             As_predicted := Float64 (Num 0),
                                             message := Some ''Pillar geometry/loads failed feasibility check.''\<rparr>))
                                     else
                                       (let w5 = log_call w4 Regressor_predict;
                                            rho_pred = Float64 (regressor_predict m (map to_float x0));
                                            As_pred = np_mul rho_pred Ac0;
                                            result = result\<lparr>rho_predicted := rho_pred,
                                                       As_predicted := As_pred\<rparr>
                                        in if py_positive as_actual
                                           then (let err = np_sub As_pred as_actual
                                                 in (w5, Inr (result\<lparr>error := Some err,
                                                       error_pct := Some (np_mul (np_truediv err as_actual) (Int64 100))\<rparr>)))
                                           else (w5, Inr result)))
                             | _ \<Rightarrow> (w2, Inl IndexError))))))"

fun get_dicts :: "world \<Rightarrow> addr list \<Rightarrow> pydict list option" where
  "get_dicts w [] = Some []"
| "get_dicts w (a # as) =
     (case get_dict w a of
        None \<Rightarrow> None
      | Some d \<Rightarrow> (case get_dicts w as of None \<Rightarrow> None | Some ds \<Rightarrow> Some (d # ds)))"

text \<open>\<open>pd.DataFrame({...})\<close> of six columns of equal length, row by row.\<close>

definition results_df ::
  "int list \<Rightarrow> npfloat list \<Rightarrow> scalar list \<Rightarrow> scalar list \<Rightarrow> scalar list \<Rightarrow> scalar list
     \<Rightarrow> batch_row list" where
  "results_df feasibility probs final_rho final_As as_actual Ac_col =
     map (\<lambda>i. \<lparr>rho_predicted = final_rho ! i, As_predicted = final_As ! i,
               As_actual = as_actual ! i, Ac = Ac_col ! i,
               is_feasible = feasibility ! i, prob_feasible = probs ! i\<rparr>)
         [0..<length feasibility]"

definition predict_batch :: "models \<Rightarrow> world \<Rightarrow> addr list \<Rightarrow> world \<times> (error + batch_row list)" where
  "predict_batch m w pillars_data_refs =
     (case get_dicts w pillars_data_refs of
        None \<Rightarrow> (w, Inl BadAddress)
      | Some pillars_data \<Rightarrow>
          (let (w1, df) = alloc w (DataFrame (frame_of_dicts pillars_data));
               (w2, r) = process_pillar_data w1 df
           in case r of
                Inl e \<Rightarrow> (w2, Inl e)
              | Inr df_eng \<Rightarrow>
                  (case (get_frame w2 df_eng, get_frame w2 df) of
                     (Some fe, Some f0) \<Rightarrow>
                       (case select_columns fe FEATURE_COLUMNS of
                          Inl e \<Rightarrow> (w2, Inl e)
                        | Inr X \<Rightarrow>
                            (let Ac_col = map (\<lambda>r. cell r ''Ac'') (rows fe);
                                 w3 = log_call w2 Classifier_predict;
                                 feasibility = map (\<lambda>x. classifier_predict m (map to_float x)) X;
                                 w4 = log_call w3 Classifier_predict_proba;
                                 probs = map (\<lambda>x. classifier_predict_proba m (map to_float x)) X;
                                 w5 = log_call w4 Regressor_predict;
                                 rho_preds = map (\<lambda>x. Float64 (regressor_predict m (map to_float x))) X;
                                 As_preds = map2 np_mul rho_preds Ac_col;
                                 final_As = map2 (\<lambda>f v. if f = 1 then v else Float64 (Num 0))
                                              feasibility As_preds;
                                 final_rho = map2 (\<lambda>f v. if f = 1 then v else Float64 (Num 0))
                                               feasibility rho_preds;
                                 as_actual = (if ''As'' \<in> set (columns f0)
                                              then map (\<lambda>r. cell r ''As'') (rows f0)
                                              else replicate (length (rows f0)) (Float64 (Num 0)))
                             in (w5, Inr (results_df feasibility probs final_rho final_As
                                            as_actual Ac_col))))
                   | _ \<Rightarrow> (w2, Inl BadAddress))))"

section \<open>Cost optimizer (optimizer.py)\<close>







record cand_row = batch_row +
  largura :: scalar
  Altura :: scalar
  custo_concreto :: scalar
  custo_aco :: scalar
  custo_total :: scalar












section \<open>Auxiliary definitions for the statements\<close>

text \<open>The raw fields a record needs for a prediction: the ten that feature engineering
  reads, and \<open>Cobrimento\<close>, which the feature matrix selects.\<close>

definition required_fields :: "string list" where
  "required_fields =
     [''fck'', ''PeDireito'', ''largura'', ''Altura'', ''Cobrimento'',
      ''N_top'', ''Mx_top'', ''My_top'', ''N_base'', ''Mx_base'', ''My_base'']"

text \<open>The feature vector that the models read from an engineered row, and the feature
  matrix \<open>X\<close> of a frame.\<close>

definition features :: "row \<Rightarrow> npfloat list" where
  "features r = map (\<lambda>k. to_float (cell (engineer_row r) k)) FEATURE_COLUMNS"

definition feature_matrix :: "frame \<Rightarrow> npfloat list list" where
  "feature_matrix f = map features (rows f)"

text \<open>The table that \<open>predict_batch\<close> builds from the frame of its input.\<close>

definition batch_table :: "models \<Rightarrow> frame \<Rightarrow> batch_row list" where
  "batch_table m f0 =
     (let X = feature_matrix f0;
          Ac_col = map (\<lambda>r. cell (engineer_row r) ''Ac'') (rows f0);
          feasibility = map (classifier_predict m) X;
          rho_preds = map (\<lambda>x. Float64 (regressor_predict m x)) X
      in results_df feasibility (map (classifier_predict_proba m) X)
           (map2 (\<lambda>f v. if f = 1 then v else Float64 (Num 0)) feasibility rho_preds)
           (map2 (\<lambda>f v. if f = 1 then v else Float64 (Num 0)) feasibility
              (map2 np_mul rho_preds Ac_col))
           (if ''As'' \<in> set (columns f0) then map (\<lambda>r. cell r ''As'') (rows f0)
            else replicate (length (rows f0)) (Float64 (Num 0)))
           Ac_col)"

text \<open>A store that holds one DataFrame, at address 0.\<close>

definition world_of_frame :: "frame \<Rightarrow> world" where
  "world_of_frame f = \<lparr>objs = [DataFrame f], calls = []\<rparr>"

text \<open>Scenario A: the known pillar of 30 x 95 cm, with the numbers as the repository
  writes them, integers but for the cover.\<close>

definition scenario_A :: pydict where
  "scenario_A =
     [(''fck'', Int64 50), (''PeDireito'', Int64 235), (''largura'', Int64 30),
      (''Altura'', Int64 95), (''Cobrimento'', Float64 (Num 2.5)), (''N_top'', Int64 392),
      (''Mx_top'', Int64 129), (''My_top'', Int64 (- 92)), (''N_base'', Int64 392),
      (''Mx_base'', Int64 205), (''My_base'', Int64 430)]"

text \<open>Two records of the inference examples: a square pillar of 15 x 15 cm, and the same
  pillar without axial load.\<close>

definition square_pillar :: pydict where
  "square_pillar =
     [(''fck'', Int64 30), (''Cobrimento'', Float64 (Num 3)), (''N_top'', Int64 500),
      (''Mx_top'', Int64 10), (''My_top'', Int64 80), (''N_base'', Int64 500),
      (''Mx_base'', Int64 10), (''My_base'', Int64 80),
      (''PeDireito'', Int64 200), (''largura'', Int64 15), (''Altura'', Int64 15),
      (''As'', Int64 0)]"

definition unloaded_pillar :: pydict where
  "unloaded_pillar =
     [(''fck'', Int64 30), (''Cobrimento'', Float64 (Num 3)), (''N_top'', Int64 0),
      (''Mx_top'', Int64 10), (''My_top'', Int64 80), (''N_base'', Int64 0),
      (''Mx_base'', Int64 10), (''My_base'', Int64 80),
      (''PeDireito'', Int64 200), (''largura'', Int64 15), (''Altura'', Int64 15),
      (''As'', Int64 0)]"

text \<open>Every object that the store \<open>w\<close> holds is the same in \<open>w'\<close>; \<open>w'\<close> may hold new ones.\<close>

definition unchanged :: "world \<Rightarrow> world \<Rightarrow> bool" where
  "unchanged w w' = (take (length (objs w)) (objs w') = objs w)"

text \<open>The frame of the record of Scenario A with a further field \<open>Ac\<close>, set to 1.\<close>

definition frame_with_Ac :: frame where
  "frame_with_Ac = frame_of_dicts [scenario_A @ [(''Ac'', Int64 1)]]"

text \<open>A store that holds the given dicts, from address 0.\<close>

definition world_of_dicts :: "pydict list \<Rightarrow> world" where
  "world_of_dicts ds = \<lparr>objs = map Dict ds, calls = []\<rparr>"

text \<open>
  A pair of models for the examples: the classifier rejects the extreme load
  \<open>N_top = 5000\<close> of the batch example (feature 5 is \<open>N_top\<close>) and accepts the rest; the
  regressor predicts a steel ratio of 1 percent.
\<close>

definition demo_models :: models where
  "demo_models =
     \<lparr>classifier_predict = (\<lambda>x. if x ! 5 = Num 5000 then 0 else 1),
      classifier_predict_proba = (\<lambda>x. if x ! 5 = Num 5000 then Num 0.1 else Num 0.9),
      regressor_predict = (\<lambda>x. Num 0.01)\<rparr>"

text \<open>A store with the frame of Scenario A at address 0 and its record at address 1.\<close>

definition demo_world :: world where
  "demo_world = \<lparr>objs = [DataFrame (frame_of_dicts [scenario_A]), Dict scenario_A], calls = []\<rparr>"

text \<open>The row and the feature vector of one record, as \<open>predict_single\<close> computes them.\<close>

definition record_row :: "pydict \<Rightarrow> row" where
  "record_row d = row_of_dict [d] (columns (frame_of_dicts [d])) d"

definition record_features :: "pydict \<Rightarrow> npfloat list" where
  "record_features d = features (record_row d)"

text \<open>The calls that \<open>predict_single\<close> makes to the models, and the result it builds.\<close>

definition single_calls :: "models \<Rightarrow> pydict \<Rightarrow> call list" where
  "single_calls m d =
     (if classifier_predict m (record_features d) = 0
      then [Classifier_predict, Classifier_predict_proba]
      else [Classifier_predict, Classifier_predict_proba, Regressor_predict])"

definition single_table :: "models \<Rightarrow> pydict \<Rightarrow> single_result" where
  "single_table m d =
     (let x0 = record_features d;
          Ac0 = cell (engineer_row (record_row d)) ''Ac'';
          label = classifier_predict m x0;
          as_actual = (case map_of d ''As'' of Some v \<Rightarrow> v | None \<Rightarrow> Int64 0);
          rho_pred = Float64 (regressor_predict m x0);
          As_pred = np_mul rho_pred Ac0;
          err = np_sub As_pred as_actual
      in \<lparr>rho_predicted = (if label = 0 then Float64 (Num 0) else rho_pred),
          As_predicted = (if label = 0 then Float64 (Num 0) else As_pred),
          As_actual = as_actual, Ac = Ac0,
          status = (if label = 1 then ''Feasible'' else ''Infeasible''),
          feasibility_prob = classifier_predict_proba m x0,
          message = (if label = 0 then Some ''Pillar geometry/loads failed feasibility check.''
                     else None),
          error = (if label \<noteq> 0 \<and> py_positive as_actual then Some err else None),
          error_pct = (if label \<noteq> 0 \<and> py_positive as_actual
                       then Some (np_mul (np_truediv err as_actual) (Int64 100)) else None)\<rparr>)"

text \<open>The record of the batch example with an extreme load.\<close>

definition extreme_pillar :: pydict where
  "extreme_pillar =
     [(''fck'', Int64 50), (''PeDireito'', Int64 200), (''largura'', Int64 45),
      (''Altura'', Int64 15), (''Cobrimento'', Float64 (Num 2.5)), (''N_top'', Int64 5000),
      (''Mx_top'', Int64 300), (''My_top'', Int64 200), (''N_base'', Int64 5000),
      (''Mx_base'', Int64 300), (''My_base'', Int64 200), (''As'', Int64 0)]"

text \<open>A store with the record of Scenario A at address 0 and the extreme one at address 1.\<close>

definition two_pillars_world :: world where
  "two_pillars_world = world_of_dicts [scenario_A, extreme_pillar]"

text \<open>The record of Scenario A without its width.\<close>

definition incomplete_pillar :: pydict where
  "incomplete_pillar =
     [(''fck'', Int64 50), (''PeDireito'', Int64 235), (''Altura'', Int64 95),
      (''Cobrimento'', Float64 (Num 2.5)), (''N_top'', Int64 392), (''Mx_top'', Int64 129),
      (''My_top'', Int64 (- 92)), (''N_base'', Int64 392), (''Mx_base'', Int64 205),
      (''My_base'', Int64 430)]"

text \<open>A store with the record of Scenario A at address 0 and the incomplete one at address 1.\<close>

definition mixed_world :: world where
  "mixed_world = world_of_dicts [scenario_A, incomplete_pillar]"

text \<open>The record of Scenario A with a width and a height of \<open>2^32\<close> cm, as integers.\<close>

definition huge_pillar :: pydict where
  "huge_pillar =
     [(''fck'', Int64 50), (''PeDireito'', Int64 235), (''largura'', Int64 4294967296),
      (''Altura'', Int64 4294967296), (''Cobrimento'', Float64 (Num 2.5)),
      (''N_top'', Int64 392), (''Mx_top'', Int64 129), (''My_top'', Int64 (- 92)),
      (''N_base'', Int64 392), (''Mx_base'', Int64 205), (''My_base'', Int64 430)]"

text \<open>The record of Scenario A with its width and height written as floats.\<close>

definition float_pillar :: pydict where
  "float_pillar =
     [(''fck'', Int64 50), (''PeDireito'', Int64 235), (''largura'', Float64 (Num 30)),
      (''Altura'', Float64 (Num 95)), (''Cobrimento'', Float64 (Num 2.5)),
      (''N_top'', Int64 392), (''Mx_top'', Int64 129), (''My_top'', Int64 (- 92)),
      (''N_base'', Int64 392), (''Mx_base'', Int64 205), (''My_base'', Int64 430)]"

text \<open>A store with the record of \<open>2^32\<close> cm at address 0 and the one with floats at address 1.\<close>

definition huge_world :: world where
  "huge_world = world_of_dicts [huge_pillar, float_pillar]"

text \<open>
  Two conditions on a record under which its row is computed alike in every frame. The
  integers of its required fields are below one million in absolute value, so that no
  integer operation of feature engineering wraps around; or the batch gives every required
  column the dtype that the record's own value has.
\<close>

fun below :: "int \<Rightarrow> scalar \<Rightarrow> bool" where
  "below n (Int64 i) = (\<bar>sint i\<bar> < n)"
| "below n (Float64 x) = True"

definition small_ints :: "pydict \<Rightarrow> bool" where
  "small_ints d =
     list_all (\<lambda>k. case map_of d k of Some v \<Rightarrow> below 1000000 v | None \<Rightarrow> True)
       required_fields"

definition same_dtypes :: "pydict \<Rightarrow> pydict list \<Rightarrow> bool" where
  "same_dtypes d ds = list_all (\<lambda>k. int_column ds k = int_column [d] k) required_fields"

text \<open>Two numbers of the same value, as floats, whose integers are below a bound.\<close>

definition agree_below :: "int \<Rightarrow> scalar \<Rightarrow> scalar \<Rightarrow> bool" where
  "agree_below n a a' = (to_float a = to_float a' \<and> below n a \<and> below n a')"






























section \<open>Basic facts about the store and the frames\<close>

lemma first_missing_None: "first_missing cols ks = None \<longleftrightarrow> set ks \<subseteq> set cols"
  by (induction ks) auto

lemma first_missing_Some: "first_missing cols ks = Some k \<Longrightarrow> k \<in> set ks \<and> k \<notin> set cols"
  by (induction ks) (auto split: if_splits)

lemma get_frame_append_old:
  "a < length (objs w) \<Longrightarrow> get_frame (w\<lparr>objs := objs w @ xs\<rparr>) a = get_frame w a"
  by (simp add: get_frame_def nth_append)

lemma get_frame_Some_less: "get_frame w a = Some f \<Longrightarrow> a < length (objs w)"
  by (simp add: get_frame_def split: if_splits)

lemma create_engineered_features_ok:
  assumes "get_frame w a = Some f" "set raw_columns \<subseteq> set (columns f)"
  shows "create_engineered_features w a =
           (w\<lparr>objs := objs w @ [DataFrame (engineer_frame f)]\<rparr>, Inr (length (objs w)))"
proof -
  have "first_missing (columns f) raw_columns = None"
    using assms(2) by (simp add: first_missing_None)
  then show ?thesis
    using assms(1)
    by (simp add: create_engineered_features_def alloc_def put_frame_def)
qed

lemma create_engineered_features_missing:
  assumes "get_frame w a = Some f" "first_missing (columns f) raw_columns = Some k"
  shows "create_engineered_features w a = (w\<lparr>objs := objs w @ [DataFrame f]\<rparr>, Inl (KeyError k))"
  using assms by (simp add: create_engineered_features_def alloc_def)

lemma process_pillar_data_ok:
  assumes "get_frame w a = Some f" "set raw_columns \<subseteq> set (columns f)"
  shows "process_pillar_data w a =
           (w\<lparr>objs := objs w @ [DataFrame f, DataFrame (engineer_frame f)]\<rparr>,
            Inr (Suc (length (objs w))))"
proof -
  have "get_frame (w\<lparr>objs := objs w @ [DataFrame f]\<rparr>) (length (objs w)) = Some f"
    by (simp add: get_frame_def)
  from create_engineered_features_ok [OF this assms(2)] show ?thesis
    using assms(1) by (simp add: process_pillar_data_def alloc_def)
qed

lemma process_pillar_data_missing:
  assumes "get_frame w a = Some f" "first_missing (columns f) raw_columns = Some k"
  shows "process_pillar_data w a =
           (w\<lparr>objs := objs w @ [DataFrame f, DataFrame f]\<rparr>, Inl (KeyError k))"
proof -
  have "get_frame (w\<lparr>objs := objs w @ [DataFrame f]\<rparr>) (length (objs w)) = Some f"
    by (simp add: get_frame_def)
  from create_engineered_features_missing [OF this assms(2)] show ?thesis
    using assms(1) by (simp add: process_pillar_data_def alloc_def)
qed

lemma set_fold_add_column: "set (fold add_column ks cols) = set ks \<union> set cols"
  by (induction ks arbitrary: cols) (auto simp: add_column_def)

lemma raw_subset_required: "set raw_columns \<subseteq> set required_fields"
  by (simp add: raw_columns_def required_fields_def)

lemma FEATURE_COLUMNS_split:
  "set FEATURE_COLUMNS \<subseteq> set engineered_columns \<union> set required_fields"
  by (simp add: FEATURE_COLUMNS_def engineered_columns_def required_fields_def)

lemma select_columns_engineer_frame:
  assumes "set required_fields \<subseteq> set (columns f)"
  shows "select_columns (engineer_frame f) FEATURE_COLUMNS
           = Inr (map (\<lambda>r. map (cell (engineer_row r)) FEATURE_COLUMNS) (rows f))"
proof -
  have "set FEATURE_COLUMNS \<subseteq> set (columns (engineer_frame f))"
    using FEATURE_COLUMNS_split assms by (auto simp: engineer_frame_def set_fold_add_column)
  then have "first_missing (columns (engineer_frame f)) FEATURE_COLUMNS = None"
    by (simp add: first_missing_None)
  then show ?thesis
    by (simp add: select_columns_def engineer_frame_def comp_def)
qed

lemma select_columns_missing:
  assumes "first_missing (columns f) ks = Some k"
  shows "select_columns f ks = Inl (KeyError k)"
  using assms by (simp add: select_columns_def)

lemma predict_batch_ok:
  assumes "get_dicts w refs = Some ds"
    and "set required_fields \<subseteq> set (columns (frame_of_dicts ds))"
  shows "predict_batch m w refs =
           (w\<lparr>objs := objs w @ [DataFrame (frame_of_dicts ds), DataFrame (frame_of_dicts ds),
                                 DataFrame (engineer_frame (frame_of_dicts ds))],
              calls := calls w @ [Classifier_predict, Classifier_predict_proba, Regressor_predict]\<rparr>,
            Inr (batch_table m (frame_of_dicts ds)))"
proof -
  define f0 where "f0 = frame_of_dicts ds"
  define w1 where "w1 = w\<lparr>objs := objs w @ [DataFrame f0]\<rparr>"
  have g1: "get_frame w1 (length (objs w)) = Some f0"
    by (simp add: w1_def get_frame_def)
  have raw: "set raw_columns \<subseteq> set (columns f0)"
    using assms(2) raw_subset_required by (auto simp: f0_def)
  have p: "process_pillar_data w1 (length (objs w)) =
             (w1\<lparr>objs := objs w1 @ [DataFrame f0, DataFrame (engineer_frame f0)]\<rparr>,
              Inr (Suc (length (objs w1))))"
    by (rule process_pillar_data_ok [OF g1 raw])
  have sel: "select_columns (engineer_frame f0) FEATURE_COLUMNS
               = Inr (map (\<lambda>r. map (cell (engineer_row r)) FEATURE_COLUMNS) (rows f0))"
    using assms(2) by (simp add: select_columns_engineer_frame f0_def)
  show ?thesis
    using assms(1) p sel
    by (simp add: predict_batch_def alloc_def f0_def [symmetric] w1_def get_frame_def
        nth_append log_call_def batch_table_def Let_def engineer_frame_def feature_matrix_def
        features_def comp_def)
qed
section \<open>Facts about the numbers\<close>

lemma fl_Num: "\<bar>x\<bar> < overflow_threshold \<Longrightarrow> fl x = Num x"
  by (auto simp: fl_def)

lemma small_below_threshold: "(10::real) ^ 30 < overflow_threshold"
  by (simp add: overflow_threshold_def)

lemma fl_small: "\<bar>x\<bar> \<le> 10 ^ 30 \<Longrightarrow> fl x = Num x"
  using small_below_threshold by (intro fl_Num) linarith

lemma np_ne_zero: "np_ne a (Int64 0) \<longleftrightarrow> a \<noteq> Int64 0 \<and> a \<noteq> Float64 (Num 0)"
  by (cases a) (auto simp: f_ne_def)

lemma np_mul_Float64: "np_mul (Float64 x) a = Float64 (f_mul x (to_float a))"
  by simp

lemma to_float_astype_float: "to_float (astype_float v) = to_float v"
  by (simp add: astype_float_def)

section \<open>Feature engineering: the engineered columns\<close>

lemma engineer_row_Ac:
  "cell (engineer_row r) ''Ac'' = np_mul (cell r ''largura'') (cell r ''Altura'')"
  by (simp add: engineer_row_def cell_def Let_def)


lemma engineer_row_mu_x:
  "cell (engineer_row r) ''mu_x'' =
     np_truediv (np_mul (np_mul (np_maximum (np_abs (cell r ''Mx_top'')) (np_abs (cell r ''Mx_base'')))
                                (Float64 (Num 1.4))) (Int64 100))
                (np_mul (np_mul (np_mul (cell r ''largura'') (cell r ''Altura'')) (cell r ''Altura''))
                        (np_truediv (np_truediv (cell r ''fck'') (Float64 (Num 1.4)))
                                    (Float64 (Num 10))))"
  by (simp add: engineer_row_def cell_def Let_def)

lemma engineer_row_mu_y:
  "cell (engineer_row r) ''mu_y'' =
     np_truediv (np_mul (np_mul (np_maximum (np_abs (cell r ''My_top'')) (np_abs (cell r ''My_base'')))
                                (Float64 (Num 1.4))) (Int64 100))
                (np_mul (np_mul (np_mul (cell r ''largura'') (cell r ''Altura'')) (cell r ''largura''))
                        (np_truediv (np_truediv (cell r ''fck'') (Float64 (Num 1.4)))
                                    (Float64 (Num 10))))"
  by (simp add: engineer_row_def cell_def Let_def)

lemma engineer_row_mu_total:
  "cell (engineer_row r) ''mu_total'' =
     np_sqrt (np_add (np_pow2 (cell (engineer_row r) ''mu_x''))
                     (np_pow2 (cell (engineer_row r) ''mu_y'')))"
  by (simp add: engineer_row_def cell_def Let_def)

lemma engineer_row_lambda:
  "cell (engineer_row r) ''lambda_x''
     = np_truediv (np_mul (Float64 (Num 3.46)) (cell r ''PeDireito'')) (cell r ''largura'')"
  "cell (engineer_row r) ''lambda_y''
     = np_truediv (np_mul (Float64 (Num 3.46)) (cell r ''PeDireito'')) (cell r ''Altura'')"
  by (simp_all add: engineer_row_def cell_def Let_def)

lemma engineer_row_aspect_ratio:
  "cell (engineer_row r) ''aspect_ratio'' =
     np_maximum (np_truediv (cell r ''Altura'') (cell r ''largura''))
                (np_truediv (cell r ''largura'') (cell r ''Altura''))"
  by (simp add: engineer_row_def cell_def Let_def)

lemma engineer_row_e:
  "cell (engineer_row r) ''e_x'' =
     (if np_ne (np_maximum (np_abs (cell r ''N_top'')) (np_abs (cell r ''N_base''))) (Int64 0)
      then np_truediv (np_maximum (np_abs (cell r ''Mx_top'')) (np_abs (cell r ''Mx_base'')))
                      (np_maximum (np_abs (cell r ''N_top'')) (np_abs (cell r ''N_base'')))
      else Float64 (Num 0))"
  "cell (engineer_row r) ''e_y'' =
     (if np_ne (np_maximum (np_abs (cell r ''N_top'')) (np_abs (cell r ''N_base''))) (Int64 0)
      then np_truediv (np_maximum (np_abs (cell r ''My_top'')) (np_abs (cell r ''My_base'')))
                      (np_maximum (np_abs (cell r ''N_top'')) (np_abs (cell r ''N_base'')))
      else Float64 (Num 0))"
  by (simp_all add: engineer_row_def cell_def Let_def)

lemma engineer_row_ratio:
  "cell (engineer_row r) ''ratio_M_x'' =
     np_truediv (cell r ''Mx_top'') (np_add (cell r ''Mx_base'') (Float64 (Num (1 / 1000000))))"
  "cell (engineer_row r) ''ratio_M_y'' =
     np_truediv (cell r ''My_top'') (np_add (cell r ''My_base'') (Float64 (Num (1 / 1000000))))"
  by (simp_all add: engineer_row_def cell_def Let_def)

lemma create_engineered_features_rows:
  assumes "get_frame w a = Some f" and "set raw_columns \<subseteq> set (columns f)"
  shows "\<exists>w' d fe. create_engineered_features w a = (w', Inr d) \<and> get_frame w' d = Some fe
           \<and> rows fe = map engineer_row (rows f)"
  using create_engineered_features_ok [OF assms]
  by (simp add: get_frame_def engineer_frame_def)

lemma set_columns_frame_of_dicts:
  "set (columns (frame_of_dicts ds)) = (\<Union>d\<in>set ds. fst ` set d)"
  by (simp add: frame_of_dicts_def Let_def set_fold_add_column)

lemma rows_frame_of_dicts:
  "rows (frame_of_dicts ds) = map (row_of_dict ds (columns (frame_of_dicts ds))) ds"
  by (simp add: frame_of_dicts_def Let_def)

lemma cell_fun_upd: "cell (r(k \<mapsto> v)) k' = (if k' = k then v else cell r k')"
  by (simp add: cell_def)

lemma cell_row_of_dict:
  "k \<in> set cols \<Longrightarrow> cell (row_of_dict ds cols d) k
     = (case map_of d k of
          Some v \<Rightarrow> if int_column ds k then v else astype_float v
        | None \<Rightarrow> Float64 NaN)"
  by (simp add: cell_def row_of_dict_def)

text \<open>In the frame of one record every value keeps its dtype.\<close>

lemma int_column_single:
  "int_column [d] k = (case map_of d k of Some v \<Rightarrow> is_int v | None \<Rightarrow> False)"
  by (simp add: int_column_def)

lemma astype_float_Float64: "\<not> is_int v \<Longrightarrow> astype_float v = v"
  by (cases v) (simp_all add: astype_float_def)

lemma record_row_cell:
  assumes "map_of d k = Some v"
  shows "cell (record_row d) k = v"
proof -
  have "k \<in> fst ` set d"
    using assms by (rule map_of_SomeD [THEN imageI, of d k v fst, simplified])
  then have "k \<in> set (columns (frame_of_dicts [d]))"
    by (simp add: set_columns_frame_of_dicts)
  then show ?thesis
    using assms by (simp add: record_row_def cell_row_of_dict int_column_single astype_float_Float64)
qed

lemma rows_single: "rows (frame_of_dicts [d]) = [record_row d]"
  by (simp add: rows_frame_of_dicts record_row_def)

lemma batch_row_cell:
  assumes "i < length ds" and "map_of (ds ! i) k = Some v"
  shows "cell (rows (frame_of_dicts ds) ! i) k = (if int_column ds k then v else astype_float v)"
proof -
  have "k \<in> fst ` set (ds ! i)"
    using assms(2) by (rule map_of_SomeD [THEN imageI, of "ds ! i" k v fst, simplified])
  then have "k \<in> set (columns (frame_of_dicts ds))"
    using assms(1) by (auto simp: set_columns_frame_of_dicts)
  then show ?thesis
    using assms by (simp add: rows_frame_of_dicts cell_row_of_dict)
qed

lemma columns_scenario_A:
  "columns (frame_of_dicts [scenario_A]) = required_fields"
  by (simp add: frame_of_dicts_def scenario_A_def add_column_def Let_def required_fields_def)


lemma signed_take_bit_wraps: "2 ^ 64 dvd (signed_take_bit 63 (k::int) - k)"
proof -
  have "signed_take_bit 63 k = take_bit 64 k - 2 ^ 64 * of_bool (bit k 63)"
    using signed_take_bit_eq_take_bit_minus [of 63 k] by simp
  moreover have "take_bit 64 k = k - 2 ^ 64 * (k div 2 ^ 64)"
    by (simp add: take_bit_eq_mod minus_mult_div_eq_mod)
  ultimately have "signed_take_bit 63 k - k = 2 ^ 64 * (- (k div 2 ^ 64) - of_bool (bit k 63))"
    by (simp add: algebra_simps)
  then show ?thesis
    by (simp only: dvd_triv_left)
qed

lemma sint_mult_wraps: "2 ^ 64 dvd (sint (b * h :: int64) - sint b * sint h)"
  using signed_take_bit_wraps [of "sint b * sint h"] by (simp add: sint_word_ariths)

lemma sint_mult_exact:
  "- (2 ^ 63) \<le> sint b * sint h \<Longrightarrow> sint b * sint h < 2 ^ 63
     \<Longrightarrow> sint (b * h :: int64) = sint b * sint h"
  by (simp add: sint_word_ariths signed_take_bit_int_eq_self)






lemma cells_huge_pillar:
  "cell (record_row huge_pillar) ''fck'' = Int64 50"
  "cell (record_row huge_pillar) ''largura'' = Int64 4294967296"
  "cell (record_row huge_pillar) ''Altura'' = Int64 4294967296"
  "cell (record_row huge_pillar) ''N_top'' = Int64 392"
  "cell (record_row huge_pillar) ''N_base'' = Int64 392"
  by (rule record_row_cell, simp add: huge_pillar_def)+


text \<open>
  Claim C9. Feature engineering returns for every frame that has the raw columns, whatever
  the values: \<open>e_x = Mx_max / N_max\<close> and \<open>e_y = My_max / N_max\<close> where \<open>N_max\<close> is not 0, both
  are 0 where \<open>N_max\<close> is 0, be it the integer or the float, and the moment ratios divide by
  the base moment shifted by \<open>1e-6\<close>, with no other guard.
\<close>

theorem eccentricity_and_ratio_total:
  assumes "get_frame w a = Some f" and "set raw_columns \<subseteq> set (columns f)"
  shows "\<exists>w' d fe. create_engineered_features w a = (w', Inr d) \<and> get_frame w' d = Some fe
           \<and> length (rows fe) = length (rows f)
           \<and> (\<forall>i<length (rows f).
                 let r = rows f ! i; e = rows fe ! i;
                     N_max = np_maximum (np_abs (cell r ''N_top'')) (np_abs (cell r ''N_base''));
                     Mx_max = np_maximum (np_abs (cell r ''Mx_top'')) (np_abs (cell r ''Mx_base''));
                     My_max = np_maximum (np_abs (cell r ''My_top'')) (np_abs (cell r ''My_base''))
                 in (N_max \<noteq> Int64 0 \<and> N_max \<noteq> Float64 (Num 0)
                       \<longrightarrow> cell e ''e_x'' = np_truediv Mx_max N_max
                         \<and> cell e ''e_y'' = np_truediv My_max N_max)
                  \<and> (N_max = Int64 0 \<or> N_max = Float64 (Num 0)
                       \<longrightarrow> cell e ''e_x'' = Float64 (Num 0) \<and> cell e ''e_y'' = Float64 (Num 0))
                  \<and> cell e ''ratio_M_x''
                      = np_truediv (cell r ''Mx_top'')
                          (np_add (cell r ''Mx_base'') (Float64 (Num (1 / 1000000))))
                  \<and> cell e ''ratio_M_y''
                      = np_truediv (cell r ''My_top'')
                          (np_add (cell r ''My_base'') (Float64 (Num (1 / 1000000)))))"
proof -
  from create_engineered_features_rows [OF assms]
  obtain w' d fe where r: "create_engineered_features w a = (w', Inr d)"
    "get_frame w' d = Some fe" "rows fe = map engineer_row (rows f)"
    by blast
  show ?thesis
    by (intro exI [of _ w'] exI [of _ d] exI [of _ fe])
       (simp add: r Let_def engineer_row_e engineer_row_ratio np_ne_zero)
qed

lemma columns_two_pillars:
  "set raw_columns \<subseteq> set (columns (frame_of_dicts [square_pillar, unloaded_pillar]))"
  by (simp add: frame_of_dicts_def square_pillar_def unloaded_pillar_def add_column_def Let_def
      raw_columns_def)

lemma int_column_two_pillars:
  "int_column [square_pillar, unloaded_pillar] ''N_top''"
  "int_column [square_pillar, unloaded_pillar] ''N_base''"
  "int_column [square_pillar, unloaded_pillar] ''Mx_top''"
  "int_column [square_pillar, unloaded_pillar] ''Mx_base''"
  "int_column [square_pillar, unloaded_pillar] ''My_top''"
  "int_column [square_pillar, unloaded_pillar] ''My_base''"
  by (simp_all add: int_column_def square_pillar_def unloaded_pillar_def)

lemma cells_two_pillars:
  "map (cell (rows (frame_of_dicts [square_pillar, unloaded_pillar]) ! 0))
       [''N_top'', ''N_base'', ''Mx_top'', ''Mx_base'', ''My_top'', ''My_base'']
     = [Int64 500, Int64 500, Int64 10, Int64 10, Int64 80, Int64 80]"
  "map (cell (rows (frame_of_dicts [square_pillar, unloaded_pillar]) ! 1))
       [''N_top'', ''N_base'', ''Mx_top'', ''Mx_base'', ''My_top'', ''My_base'']
     = [Int64 0, Int64 0, Int64 10, Int64 10, Int64 80, Int64 80]"
proof -
  let ?ds = "[square_pillar, unloaded_pillar]"
  have i: "(0::nat) < length ?ds" "Suc 0 < length ?ds"
    by simp_all
  have m0: "map_of (?ds ! 0) ''N_top'' = Some (Int64 500)"
    "map_of (?ds ! 0) ''N_base'' = Some (Int64 500)"
    "map_of (?ds ! 0) ''Mx_top'' = Some (Int64 10)"
    "map_of (?ds ! 0) ''Mx_base'' = Some (Int64 10)"
    "map_of (?ds ! 0) ''My_top'' = Some (Int64 80)"
    "map_of (?ds ! 0) ''My_base'' = Some (Int64 80)"
    by (simp_all add: square_pillar_def)
  have m1: "map_of (?ds ! Suc 0) ''N_top'' = Some (Int64 0)"
    "map_of (?ds ! Suc 0) ''N_base'' = Some (Int64 0)"
    "map_of (?ds ! Suc 0) ''Mx_top'' = Some (Int64 10)"
    "map_of (?ds ! Suc 0) ''Mx_base'' = Some (Int64 10)"
    "map_of (?ds ! Suc 0) ''My_top'' = Some (Int64 80)"
    "map_of (?ds ! Suc 0) ''My_base'' = Some (Int64 80)"
    by (simp_all add: unloaded_pillar_def)
  show "map (cell (rows (frame_of_dicts ?ds) ! 0))
       [''N_top'', ''N_base'', ''Mx_top'', ''Mx_base'', ''My_top'', ''My_base'']
     = [Int64 500, Int64 500, Int64 10, Int64 10, Int64 80, Int64 80]"
    by (simp add: batch_row_cell [OF i(1) m0(1)] batch_row_cell [OF i(1) m0(2)]
        batch_row_cell [OF i(1) m0(3)] batch_row_cell [OF i(1) m0(4)]
        batch_row_cell [OF i(1) m0(5)] batch_row_cell [OF i(1) m0(6)] int_column_two_pillars)
  show "map (cell (rows (frame_of_dicts ?ds) ! 1))
       [''N_top'', ''N_base'', ''Mx_top'', ''Mx_base'', ''My_top'', ''My_base'']
     = [Int64 0, Int64 0, Int64 10, Int64 10, Int64 80, Int64 80]"
    by (simp add: batch_row_cell [OF i(2) m1(1)] batch_row_cell [OF i(2) m1(2)]
        batch_row_cell [OF i(2) m1(3)] batch_row_cell [OF i(2) m1(4)]
        batch_row_cell [OF i(2) m1(5)] batch_row_cell [OF i(2) m1(6)] int_column_two_pillars)
qed

theorem eccentricity_and_ratio_total_witness:
  "get_frame (world_of_frame (frame_of_dicts [square_pillar, unloaded_pillar])) 0
     = Some (frame_of_dicts [square_pillar, unloaded_pillar])
   \<and> set raw_columns \<subseteq> set (columns (frame_of_dicts [square_pillar, unloaded_pillar]))
   \<and> (\<exists>w' d fe. create_engineered_features
                    (world_of_frame (frame_of_dicts [square_pillar, unloaded_pillar])) 0
                       = (w', Inr d)
          \<and> get_frame w' d = Some fe
          \<and> cell (rows fe ! 0) ''e_x'' = Float64 (Num (1 / 50))
          \<and> cell (rows fe ! 0) ''e_y'' = Float64 (Num (4 / 25))
          \<and> cell (rows fe ! 1) ''e_x'' = Float64 (Num 0)
          \<and> cell (rows fe ! 1) ''e_y'' = Float64 (Num 0)
          \<and> cell (rows fe ! 0) ''ratio_M_x'' = Float64 (Num (10000000 / 10000001)))"
proof -
  let ?f = "frame_of_dicts [square_pillar, unloaded_pillar]"
  have g: "get_frame (world_of_frame ?f) 0 = Some ?f"
    by (simp add: world_of_frame_def get_frame_def)
  have n: "length (rows ?f) = 2"
    by (simp add: frame_of_dicts_def Let_def)
  note c0 = cells_two_pillars(1)
  note c1 = cells_two_pillars(2)
  from eccentricity_and_ratio_total [OF g columns_two_pillars]
  obtain w' d fe where r: "create_engineered_features (world_of_frame ?f) 0 = (w', Inr d)"
    "get_frame w' d = Some fe"
    and e: "\<forall>i<length (rows ?f).
                 let r = rows ?f ! i; e = rows fe ! i;
                     N_max = np_maximum (np_abs (cell r ''N_top'')) (np_abs (cell r ''N_base''));
                     Mx_max = np_maximum (np_abs (cell r ''Mx_top'')) (np_abs (cell r ''Mx_base''));
                     My_max = np_maximum (np_abs (cell r ''My_top'')) (np_abs (cell r ''My_base''))
                 in (N_max \<noteq> Int64 0 \<and> N_max \<noteq> Float64 (Num 0)
                       \<longrightarrow> cell e ''e_x'' = np_truediv Mx_max N_max
                         \<and> cell e ''e_y'' = np_truediv My_max N_max)
                  \<and> (N_max = Int64 0 \<or> N_max = Float64 (Num 0)
                       \<longrightarrow> cell e ''e_x'' = Float64 (Num 0) \<and> cell e ''e_y'' = Float64 (Num 0))
                  \<and> cell e ''ratio_M_x''
                      = np_truediv (cell r ''Mx_top'')
                          (np_add (cell r ''Mx_base'') (Float64 (Num (1 / 1000000))))
                  \<and> cell e ''ratio_M_y''
                      = np_truediv (cell r ''My_top'')
                          (np_add (cell r ''My_base'') (Float64 (Num (1 / 1000000))))"
    by blast
  from e n have e0: "let r = rows ?f ! 0; e = rows fe ! 0;
                     N_max = np_maximum (np_abs (cell r ''N_top'')) (np_abs (cell r ''N_base''));
                     Mx_max = np_maximum (np_abs (cell r ''Mx_top'')) (np_abs (cell r ''Mx_base''));
                     My_max = np_maximum (np_abs (cell r ''My_top'')) (np_abs (cell r ''My_base''))
                 in (N_max \<noteq> Int64 0 \<and> N_max \<noteq> Float64 (Num 0)
                       \<longrightarrow> cell e ''e_x'' = np_truediv Mx_max N_max
                         \<and> cell e ''e_y'' = np_truediv My_max N_max)
                  \<and> cell e ''ratio_M_x''
                      = np_truediv (cell r ''Mx_top'')
                          (np_add (cell r ''Mx_base'') (Float64 (Num (1 / 1000000))))"
    by (simp add: Let_def)
  from e n have e1: "let r = rows ?f ! 1; e = rows fe ! 1;
                     N_max = np_maximum (np_abs (cell r ''N_top'')) (np_abs (cell r ''N_base''))
                 in (N_max = Int64 0 \<or> N_max = Float64 (Num 0)
                       \<longrightarrow> cell e ''e_x'' = Float64 (Num 0) \<and> cell e ''e_y'' = Float64 (Num 0))"
    by (simp add: Let_def)
  from e0 c0 have v0: "cell (rows fe ! 0) ''e_x'' = Float64 (Num (1 / 50))"
    "cell (rows fe ! 0) ''e_y'' = Float64 (Num (4 / 25))"
    "cell (rows fe ! 0) ''ratio_M_x'' = Float64 (Num (10000000 / 10000001))"
    by (simp_all add: Let_def np_truediv_def fl_small)
  from e1 c1 have v1: "cell (rows fe ! 1) ''e_x'' = Float64 (Num 0)"
    "cell (rows fe ! 1) ''e_y'' = Float64 (Num 0)"
    by (simp_all add: Let_def)
  from g columns_two_pillars r v0 v1 show ?thesis
    by (intro conjI exI [of _ w'] exI [of _ d] exI [of _ fe]) simp_all
qed

lemma np_sqrt_sum_squares:
  assumes "x\<^sup>2 + y\<^sup>2 < overflow_threshold"
  shows "np_sqrt (np_add (np_pow2 (Float64 (Num x))) (np_pow2 (Float64 (Num y))))
           = Float64 (Num (sqrt (x\<^sup>2 + y\<^sup>2)))"
proof -
  have x: "\<bar>x * x\<bar> < overflow_threshold"
  proof -
    have "\<bar>x * x\<bar> = x\<^sup>2"
      by (simp add: power2_eq_square)
    also have "\<dots> \<le> x\<^sup>2 + y\<^sup>2"
      by simp
    finally show ?thesis
      using assms by simp
  qed
  have y: "\<bar>y * y\<bar> < overflow_threshold"
  proof -
    have "\<bar>y * y\<bar> = y\<^sup>2"
      by (simp add: power2_eq_square)
    also have "\<dots> \<le> x\<^sup>2 + y\<^sup>2"
      by simp
    finally show ?thesis
      using assms by simp
  qed
  have s: "\<bar>x * x + y * y\<bar> < overflow_threshold"
    using assms by (simp add: power2_eq_square)
  show ?thesis
    by (simp add: np_pow2_def np_sqrt_def fl_Num [OF x] fl_Num [OF y] fl_Num [OF s]
        power2_eq_square)
qed

lemma lambda_depends_on_number:
  "to_float u = to_float v \<Longrightarrow> np_truediv a u = np_truediv a v"
  by (simp add: np_truediv_def)

lemma aspect_ratio_square:
  assumes "s \<noteq> 0" and "to_float u = Num s" and "to_float v = Num s"
  shows "np_maximum (np_truediv v u) (np_truediv u v) = Float64 (Num 1)"
  using assms by (simp add: np_truediv_def fl_small)

text \<open>
  Claim C7. For every row, \<open>mu_total\<close> is the square root of \<open>mu_x\<^sup>2 + mu_y\<^sup>2\<close>, computed from
  the row's own \<open>mu_x\<close> and \<open>mu_y\<close>, which are the reduced moments of the row's loads and
  dimensions; where these are two numbers whose squares do not overflow it is the number
  \<open>sqrt (mu_x\<^sup>2 + mu_y\<^sup>2)\<close>. The slendernesses are \<open>3.46 * clearHeight\<close> over the width and
  over the height and the aspect ratio is the greater of the two quotients of width and
  height, so for a square section (width and height the same non-zero number) \<open>lambda_x\<close>
  equals \<open>lambda_y\<close> and \<open>aspect_ratio\<close> is 1.
\<close>

theorem mu_total_and_square_section:
  assumes "get_frame w a = Some f" and "set raw_columns \<subseteq> set (columns f)"
  shows "\<exists>w' d fe. create_engineered_features w a = (w', Inr d) \<and> get_frame w' d = Some fe
           \<and> length (rows fe) = length (rows f)
           \<and> (\<forall>i<length (rows f).
                 let r = rows f ! i; e = rows fe ! i;
                     width = cell r ''largura''; height = cell r ''Altura'';
                     Mx_max = np_maximum (np_abs (cell r ''Mx_top'')) (np_abs (cell r ''Mx_base''));
                     My_max = np_maximum (np_abs (cell r ''My_top'')) (np_abs (cell r ''My_base''));
                     fcd = np_truediv (np_truediv (cell r ''fck'') (Float64 (Num 1.4)))
                                      (Float64 (Num 10));
                     Ac = np_mul width height;
                     mu_x = np_truediv (np_mul (np_mul Mx_max (Float64 (Num 1.4))) (Int64 100))
                                       (np_mul (np_mul Ac height) fcd);
                     mu_y = np_truediv (np_mul (np_mul My_max (Float64 (Num 1.4))) (Int64 100))
                                       (np_mul (np_mul Ac width) fcd);
                     lam = np_mul (Float64 (Num 3.46)) (cell r ''PeDireito'')
                 in cell e ''mu_x'' = mu_x \<and> cell e ''mu_y'' = mu_y
                  \<and> cell e ''mu_total'' = np_sqrt (np_add (np_pow2 mu_x) (np_pow2 mu_y))
                  \<and> (\<forall>x y. mu_x = Float64 (Num x) \<and> mu_y = Float64 (Num y)
                           \<and> x\<^sup>2 + y\<^sup>2 < overflow_threshold
                        \<longrightarrow> cell e ''mu_total'' = Float64 (Num (sqrt (x\<^sup>2 + y\<^sup>2))))
                  \<and> cell e ''lambda_x'' = np_truediv lam width
                  \<and> cell e ''lambda_y'' = np_truediv lam height
                  \<and> cell e ''aspect_ratio''
                      = np_maximum (np_truediv height width) (np_truediv width height)
                  \<and> (\<forall>s. s \<noteq> 0 \<and> to_float width = Num s \<and> to_float height = Num s
                        \<longrightarrow> cell e ''lambda_x'' = cell e ''lambda_y''
                          \<and> cell e ''aspect_ratio'' = Float64 (Num 1)))"
proof -
  from create_engineered_features_rows [OF assms]
  obtain w' d fe where r: "create_engineered_features w a = (w', Inr d)"
    "get_frame w' d = Some fe" "rows fe = map engineer_row (rows f)"
    by blast
  have mt: "\<And>u v x y. u = Float64 (Num x) \<and> v = Float64 (Num y) \<and> x\<^sup>2 + y\<^sup>2 < overflow_threshold
               \<longrightarrow> np_sqrt (np_add (np_pow2 u) (np_pow2 v)) = Float64 (Num (sqrt (x\<^sup>2 + y\<^sup>2)))"
    using np_sqrt_sum_squares by blast
  have sq: "\<And>u v s l. s \<noteq> 0 \<and> to_float u = Num s \<and> to_float v = Num s
               \<longrightarrow> np_truediv l u = np_truediv l v
                 \<and> np_maximum (np_truediv v u) (np_truediv u v) = Float64 (Num 1)"
    using lambda_depends_on_number aspect_ratio_square by metis
  have row: "let width = cell r ''largura''; height = cell r ''Altura'';
                     Mx_max = np_maximum (np_abs (cell r ''Mx_top'')) (np_abs (cell r ''Mx_base''));
                     My_max = np_maximum (np_abs (cell r ''My_top'')) (np_abs (cell r ''My_base''));
                     fcd = np_truediv (np_truediv (cell r ''fck'') (Float64 (Num 1.4)))
                                      (Float64 (Num 10));
                     Ac = np_mul width height;
                     mu_x = np_truediv (np_mul (np_mul Mx_max (Float64 (Num 1.4))) (Int64 100))
                                       (np_mul (np_mul Ac height) fcd);
                     mu_y = np_truediv (np_mul (np_mul My_max (Float64 (Num 1.4))) (Int64 100))
                                       (np_mul (np_mul Ac width) fcd);
                     lam = np_mul (Float64 (Num 3.46)) (cell r ''PeDireito'');
                     e = engineer_row r
                 in cell e ''mu_x'' = mu_x \<and> cell e ''mu_y'' = mu_y
                  \<and> cell e ''mu_total'' = np_sqrt (np_add (np_pow2 mu_x) (np_pow2 mu_y))
                  \<and> (\<forall>x y. mu_x = Float64 (Num x) \<and> mu_y = Float64 (Num y)
                           \<and> x\<^sup>2 + y\<^sup>2 < overflow_threshold
                        \<longrightarrow> cell e ''mu_total'' = Float64 (Num (sqrt (x\<^sup>2 + y\<^sup>2))))
                  \<and> cell e ''lambda_x'' = np_truediv lam width
                  \<and> cell e ''lambda_y'' = np_truediv lam height
                  \<and> cell e ''aspect_ratio''
                      = np_maximum (np_truediv height width) (np_truediv width height)
                  \<and> (\<forall>s. s \<noteq> 0 \<and> to_float width = Num s \<and> to_float height = Num s
                        \<longrightarrow> cell e ''lambda_x'' = cell e ''lambda_y''
                          \<and> cell e ''aspect_ratio'' = Float64 (Num 1))" for r
    unfolding Let_def engineer_row_mu_total engineer_row_mu_x engineer_row_mu_y
      engineer_row_lambda engineer_row_aspect_ratio
    using mt sq by blast
  show ?thesis
  proof (intro exI [of _ w'] exI [of _ d] exI [of _ fe] conjI allI impI)
    show "create_engineered_features w a = (w', Inr d)" "get_frame w' d = Some fe"
      by (fact r)+
    show "length (rows fe) = length (rows f)"
      by (simp add: r)
    fix i
    assume "i < length (rows f)"
    then have eq: "rows fe ! i = engineer_row (rows f ! i)"
      by (simp add: r)
    from row [of "rows f ! i"]
    show "let r = rows f ! i; e = rows fe ! i;
                     width = cell r ''largura''; height = cell r ''Altura'';
                     Mx_max = np_maximum (np_abs (cell r ''Mx_top'')) (np_abs (cell r ''Mx_base''));
                     My_max = np_maximum (np_abs (cell r ''My_top'')) (np_abs (cell r ''My_base''));
                     fcd = np_truediv (np_truediv (cell r ''fck'') (Float64 (Num 1.4)))
                                      (Float64 (Num 10));
                     Ac = np_mul width height;
                     mu_x = np_truediv (np_mul (np_mul Mx_max (Float64 (Num 1.4))) (Int64 100))
                                       (np_mul (np_mul Ac height) fcd);
                     mu_y = np_truediv (np_mul (np_mul My_max (Float64 (Num 1.4))) (Int64 100))
                                       (np_mul (np_mul Ac width) fcd);
                     lam = np_mul (Float64 (Num 3.46)) (cell r ''PeDireito'')
                 in cell e ''mu_x'' = mu_x \<and> cell e ''mu_y'' = mu_y
                  \<and> cell e ''mu_total'' = np_sqrt (np_add (np_pow2 mu_x) (np_pow2 mu_y))
                  \<and> (\<forall>x y. mu_x = Float64 (Num x) \<and> mu_y = Float64 (Num y)
                           \<and> x\<^sup>2 + y\<^sup>2 < overflow_threshold
                        \<longrightarrow> cell e ''mu_total'' = Float64 (Num (sqrt (x\<^sup>2 + y\<^sup>2))))
                  \<and> cell e ''lambda_x'' = np_truediv lam width
                  \<and> cell e ''lambda_y'' = np_truediv lam height
                  \<and> cell e ''aspect_ratio''
                      = np_maximum (np_truediv height width) (np_truediv width height)
                  \<and> (\<forall>s. s \<noteq> 0 \<and> to_float width = Num s \<and> to_float height = Num s
                        \<longrightarrow> cell e ''lambda_x'' = cell e ''lambda_y''
                          \<and> cell e ''aspect_ratio'' = Float64 (Num 1))"
      unfolding Let_def eq .
  qed
qed


lemma columns_square_pillar:
  "set raw_columns \<subseteq> set (columns (frame_of_dicts [square_pillar]))"
  by (simp add: frame_of_dicts_def square_pillar_def add_column_def Let_def raw_columns_def)

lemma cells_square_pillar:
  "cell (record_row square_pillar) ''fck'' = Int64 30"
  "cell (record_row square_pillar) ''PeDireito'' = Int64 200"
  "cell (record_row square_pillar) ''largura'' = Int64 15"
  "cell (record_row square_pillar) ''Altura'' = Int64 15"
  "cell (record_row square_pillar) ''Mx_top'' = Int64 10"
  "cell (record_row square_pillar) ''Mx_base'' = Int64 10"
  "cell (record_row square_pillar) ''My_top'' = Int64 80"
  "cell (record_row square_pillar) ''My_base'' = Int64 80"
  by (rule record_row_cell, simp add: square_pillar_def)+

theorem mu_total_and_square_section_witness:
  "get_frame (world_of_frame (frame_of_dicts [square_pillar])) 0
     = Some (frame_of_dicts [square_pillar])
   \<and> set raw_columns \<subseteq> set (columns (frame_of_dicts [square_pillar]))
   \<and> to_float (cell (rows (frame_of_dicts [square_pillar]) ! 0) ''largura'') = Num 15
   \<and> to_float (cell (rows (frame_of_dicts [square_pillar]) ! 0) ''Altura'') = Num 15
   \<and> (\<exists>w' d fe. create_engineered_features (world_of_frame (frame_of_dicts [square_pillar])) 0
                       = (w', Inr d)
          \<and> get_frame w' d = Some fe
          \<and> cell (rows fe ! 0) ''mu_x'' = Float64 (Num (392 / 2025))
          \<and> cell (rows fe ! 0) ''mu_y'' = Float64 (Num (3136 / 2025))
          \<and> cell (rows fe ! 0) ''mu_total''
               = Float64 (Num (sqrt ((392 / 2025)\<^sup>2 + (3136 / 2025)\<^sup>2)))
          \<and> cell (rows fe ! 0) ''lambda_x'' = Float64 (Num (692 / 15))
          \<and> cell (rows fe ! 0) ''lambda_y'' = Float64 (Num (692 / 15))
          \<and> cell (rows fe ! 0) ''aspect_ratio'' = Float64 (Num 1))"
proof -
  let ?f = "frame_of_dicts [square_pillar]"
  have g: "get_frame (world_of_frame ?f) 0 = Some ?f"
    by (simp add: world_of_frame_def get_frame_def)
  have n: "0 < length (rows ?f)"
    by (simp add: rows_single)
  have wh: "to_float (cell (rows ?f ! 0) ''largura'') = Num 15"
    "to_float (cell (rows ?f ! 0) ''Altura'') = Num 15"
    by (simp_all add: rows_single cells_square_pillar)
  from mu_total_and_square_section [OF g columns_square_pillar]
  obtain w' d fe where r: "create_engineered_features (world_of_frame ?f) 0 = (w', Inr d)"
    "get_frame w' d = Some fe"
    and sq: "\<forall>i<length (rows ?f).
                 let r = rows ?f ! i; e = rows fe ! i;
                     width = cell r ''largura''; height = cell r ''Altura'';
                     Mx_max = np_maximum (np_abs (cell r ''Mx_top'')) (np_abs (cell r ''Mx_base''));
                     My_max = np_maximum (np_abs (cell r ''My_top'')) (np_abs (cell r ''My_base''));
                     fcd = np_truediv (np_truediv (cell r ''fck'') (Float64 (Num 1.4)))
                                      (Float64 (Num 10));
                     Ac = np_mul width height;
                     mu_x = np_truediv (np_mul (np_mul Mx_max (Float64 (Num 1.4))) (Int64 100))
                                       (np_mul (np_mul Ac height) fcd);
                     mu_y = np_truediv (np_mul (np_mul My_max (Float64 (Num 1.4))) (Int64 100))
                                       (np_mul (np_mul Ac width) fcd);
                     lam = np_mul (Float64 (Num 3.46)) (cell r ''PeDireito'')
                 in cell e ''mu_x'' = mu_x \<and> cell e ''mu_y'' = mu_y
                  \<and> cell e ''mu_total'' = np_sqrt (np_add (np_pow2 mu_x) (np_pow2 mu_y))
                  \<and> (\<forall>x y. mu_x = Float64 (Num x) \<and> mu_y = Float64 (Num y)
                           \<and> x\<^sup>2 + y\<^sup>2 < overflow_threshold
                        \<longrightarrow> cell e ''mu_total'' = Float64 (Num (sqrt (x\<^sup>2 + y\<^sup>2))))
                  \<and> cell e ''lambda_x'' = np_truediv lam width
                  \<and> cell e ''lambda_y'' = np_truediv lam height
                  \<and> cell e ''aspect_ratio''
                      = np_maximum (np_truediv height width) (np_truediv width height)
                  \<and> (\<forall>s. s \<noteq> 0 \<and> to_float width = Num s \<and> to_float height = Num s
                        \<longrightarrow> cell e ''lambda_x'' = cell e ''lambda_y''
                          \<and> cell e ''aspect_ratio'' = Float64 (Num 1))"
    by blast
  have b: "(392 / 2025 :: real)\<^sup>2 + (3136 / 2025)\<^sup>2 < overflow_threshold"
    by (simp add: overflow_threshold_def power2_eq_square)
  from sq n have v: "cell (rows fe ! 0) ''mu_x'' = Float64 (Num (392 / 2025))"
    "cell (rows fe ! 0) ''mu_y'' = Float64 (Num (3136 / 2025))"
    "cell (rows fe ! 0) ''mu_total''
       = Float64 (Num (sqrt ((392 / 2025)\<^sup>2 + (3136 / 2025)\<^sup>2)))"
    "cell (rows fe ! 0) ''lambda_x'' = Float64 (Num (692 / 15))"
    "cell (rows fe ! 0) ''lambda_y'' = Float64 (Num (692 / 15))"
    "cell (rows fe ! 0) ''aspect_ratio'' = Float64 (Num 1)"
    by (simp_all add: Let_def rows_single cells_square_pillar np_truediv_def fl_small
        np_sqrt_sum_squares [OF b])
  from g columns_square_pillar wh r v show ?thesis
    by (intro conjI exI [of _ w'] exI [of _ d] exI [of _ fe]) simp_all
qed

section \<open>Frame effects: what the calls leave unchanged\<close>

lemma unchanged_refl: "unchanged w w"
  by (simp add: unchanged_def)

lemma unchanged_length:
  assumes "unchanged w w'"
  shows "length (objs w) \<le> length (objs w')"
proof -
  have "length (take (length (objs w)) (objs w')) = length (objs w)"
    using assms by (simp only: unchanged_def)
  then show ?thesis
    by simp
qed

lemma unchanged_trans:
  assumes "unchanged w w1" and "unchanged w1 w2"
  shows "unchanged w w2"
proof -
  have le: "length (objs w) \<le> length (objs w1)"
    using assms(1) by (rule unchanged_length)
  have "take (length (objs w)) (objs w2)
          = take (length (objs w)) (take (length (objs w1)) (objs w2))"
    using le by (simp add: min_def)
  also have "\<dots> = take (length (objs w)) (objs w1)"
    using assms(2) by (simp only: unchanged_def)
  also have "\<dots> = objs w"
    using assms(1) by (simp only: unchanged_def)
  finally show ?thesis
    by (simp only: unchanged_def)
qed

lemma unchanged_alloc: "alloc w ob = (w1, a) \<Longrightarrow> unchanged w w1"
  by (auto simp: alloc_def unchanged_def)

lemma unchanged_log_call: "unchanged w w1 \<Longrightarrow> unchanged w (log_call w1 c)"
  by (simp add: unchanged_def log_call_def)

lemma unchanged_nth:
  assumes "unchanged w w'" and "b < length (objs w)"
  shows "objs w' ! b = objs w ! b"
proof -
  have "take (length (objs w)) (objs w') ! b = objs w' ! b"
    using assms(2) by simp
  with assms(1) show ?thesis
    by (simp only: unchanged_def)
qed

lemma unchanged_create_engineered_features:
  "create_engineered_features w a = (w', r) \<Longrightarrow> unchanged w w'"
  by (auto simp: create_engineered_features_def alloc_def put_frame_def unchanged_def
      split: option.splits)

lemma unchanged_process_pillar_data:
  assumes "process_pillar_data w a = (w', r)"
  shows "unchanged w w'"
proof (cases "get_frame w a")
  case None
  with assms show ?thesis
    by (simp add: process_pillar_data_def unchanged_refl)
next
  case (Some f)
  obtain w1 d where al: "alloc w (DataFrame f) = (w1, d)"
    by (cases "alloc w (DataFrame f)")
  with assms Some have "create_engineered_features w1 d = (w', r)"
    by (simp add: process_pillar_data_def)
  then have "unchanged w1 w'"
    by (rule unchanged_create_engineered_features)
  with unchanged_alloc [OF al] show ?thesis
    by (rule unchanged_trans)
qed

lemma unchanged_predict_single:
  assumes "predict_single m w p = (w', r)"
  shows "unchanged w w'"
proof (cases "get_dict w p")
  case None
  with assms show ?thesis
    by (simp add: predict_single_def unchanged_refl)
next
  case (Some pillar_data)
  obtain w1 df where al: "alloc w (DataFrame (frame_of_dicts [pillar_data])) = (w1, df)"
    by (cases "alloc w (DataFrame (frame_of_dicts [pillar_data]))")
  obtain w2 r2 where pr: "process_pillar_data w1 df = (w2, r2)"
    by (cases "process_pillar_data w1 df")
  have u2: "unchanged w w2"
    using unchanged_alloc [OF al] unchanged_process_pillar_data [OF pr] by (rule unchanged_trans)
  have "objs w' = objs w2"
  proof (cases r2)
    case (Inl e)
    with assms Some al pr show ?thesis
      by (simp add: predict_single_def)
  next
    case (Inr df_eng)
    show ?thesis
    proof (cases "get_frame w2 df_eng")
      case None
      with assms Some al pr Inr show ?thesis
        by (simp add: predict_single_def)
    next
      case fe: (Some fe)
      show ?thesis
      proof (cases "select_columns fe FEATURE_COLUMNS")
        case (Inl e)
        with assms Some al pr Inr fe show ?thesis
          by (simp add: predict_single_def)
      next
        case X: (Inr X)
        show ?thesis
        proof (cases "rows fe")
          case Nil
          with assms Some al pr Inr fe X show ?thesis
            by (simp add: predict_single_def)
        next
          case r0: (Cons r0 rs)
          show ?thesis
          proof (cases X)
            case Nil
            with assms Some al pr Inr fe X r0 show ?thesis
              by (simp add: predict_single_def)
          next
            case (Cons x0 xs)
            with assms Some al pr Inr fe X r0 show ?thesis
              by (auto simp add: predict_single_def Let_def log_call_def split: if_splits)
          qed
        qed
      qed
    qed
  qed
  with u2 show ?thesis
    by (simp add: unchanged_def)
qed

lemma unchanged_predict_batch:
  assumes "predict_batch m w ps = (w', r)"
  shows "unchanged w w'"
proof (cases "get_dicts w ps")
  case None
  with assms show ?thesis
    by (simp add: predict_batch_def unchanged_refl)
next
  case (Some pillars_data)
  obtain w1 df where al: "alloc w (DataFrame (frame_of_dicts pillars_data)) = (w1, df)"
    by (cases "alloc w (DataFrame (frame_of_dicts pillars_data))")
  obtain w2 r2 where pr: "process_pillar_data w1 df = (w2, r2)"
    by (cases "process_pillar_data w1 df")
  have u2: "unchanged w w2"
    using unchanged_alloc [OF al] unchanged_process_pillar_data [OF pr] by (rule unchanged_trans)
  have "objs (fst (predict_batch m w ps)) = objs w2"
    using Some al pr
    by (simp add: predict_batch_def Let_def log_call_def
        split: sum.split option.split)
  with u2 assms show ?thesis
    by (simp add: unchanged_def)
qed

lemma create_engineered_features_keeps:
  assumes "create_engineered_features w a = (w', Inr d)" and "get_frame w a = Some f"
    and "get_frame w' d = Some fe"
  shows "fe = engineer_frame f"
proof -
  from assms(1,2) have "first_missing (columns f) raw_columns = None"
    by (cases "first_missing (columns f) raw_columns")
       (simp_all add: create_engineered_features_def alloc_def)
  then have "set raw_columns \<subseteq> set (columns f)"
    by (simp add: first_missing_None)
  from create_engineered_features_ok [OF assms(2) this] assms(1,3) show ?thesis
    by (auto simp: get_frame_def)
qed

lemma engineer_row_other:
  assumes "k \<notin> set engineered_columns"
  shows "engineer_row r k = r k"
proof -
  have ne: "k \<noteq> ''N_med''" "k \<noteq> ''Mx_med''" "k \<noteq> ''My_med''" "k \<noteq> ''dN''" "k \<noteq> ''dMx''"
    "k \<noteq> ''dMy''" "k \<noteq> ''Ac''" "k \<noteq> ''nu''" "k \<noteq> ''mu_x''" "k \<noteq> ''mu_y''"
    "k \<noteq> ''lambda_x''" "k \<noteq> ''lambda_y''" "k \<noteq> ''mu_total''" "k \<noteq> ''e_x''" "k \<noteq> ''e_y''"
    "k \<noteq> ''ratio_M_x''" "k \<noteq> ''ratio_M_y''" "k \<noteq> ''index_2nd_order_x''"
    "k \<noteq> ''index_2nd_order_y''" "k \<noteq> ''aspect_ratio''" "k \<noteq> ''theta_moment''"
    using assms by (auto simp: engineered_columns_def)
  show ?thesis
    unfolding engineer_row_def Let_def
    by (simp only: fun_upd_other [OF ne(1)] fun_upd_other [OF ne(2)] fun_upd_other [OF ne(3)]
        fun_upd_other [OF ne(4)] fun_upd_other [OF ne(5)] fun_upd_other [OF ne(6)]
        fun_upd_other [OF ne(7)] fun_upd_other [OF ne(8)] fun_upd_other [OF ne(9)]
        fun_upd_other [OF ne(10)] fun_upd_other [OF ne(11)] fun_upd_other [OF ne(12)]
        fun_upd_other [OF ne(13)] fun_upd_other [OF ne(14)] fun_upd_other [OF ne(15)]
        fun_upd_other [OF ne(16)] fun_upd_other [OF ne(17)] fun_upd_other [OF ne(18)]
        fun_upd_other [OF ne(19)] fun_upd_other [OF ne(20)] fun_upd_other [OF ne(21)])
qed

lemma unchanged_get_frame:
  "unchanged w w' \<Longrightarrow> get_frame w a = Some f \<Longrightarrow> get_frame w' a = Some f"
  using unchanged_length [of w w'] unchanged_nth [of w w' a]
  by (auto simp: get_frame_def split: if_splits)

lemma unchanged_get_dict:
  "unchanged w w' \<Longrightarrow> get_dict w a = Some d \<Longrightarrow> get_dict w' a = Some d"
  using unchanged_length [of w w'] unchanged_nth [of w w' a]
  by (auto simp: get_dict_def split: if_splits)

lemma unchanged_get_dicts:
  "unchanged w w' \<Longrightarrow> get_dicts w refs = Some ds \<Longrightarrow> get_dicts w' refs = Some ds"
proof (induction refs arbitrary: ds)
  case Nil
  then show ?case by simp
next
  case (Cons a refs)
  then show ?case
    by (auto simp: unchanged_get_dict split: option.splits)
qed

lemma columns_engineer_frame: "set (columns f) \<subseteq> set (columns (engineer_frame f))"
  by (simp add: engineer_frame_def set_fold_add_column)

text \<open>
  Claim C10, as amended. \<open>create_engineered_features\<close> leaves every object of the store as
  it was, the frame it was given included: it works on a copy. The frame it returns has as
  many rows, and every column of the argument; a column whose name is not the name of an
  engineered feature has its values unchanged. \<open>predict_single\<close> and \<open>predict_batch\<close> leave
  every object of the store as it was, the caller's records included, whatever they return.
\<close>

theorem feature_engineering_copies_argument:
  "(create_engineered_features w a = (w1, r1) \<longrightarrow>
      unchanged w w1
      \<and> (\<forall>f. get_frame w a = Some f \<longrightarrow>
            get_frame w1 a = Some f
            \<and> (\<forall>d fe. r1 = Inr d \<and> get_frame w1 d = Some fe \<longrightarrow>
                  length (rows fe) = length (rows f)
                  \<and> (\<forall>k\<in>set (columns f).
                        k \<in> set (columns fe)
                        \<and> (k \<notin> set engineered_columns \<longrightarrow>
                              (\<forall>i<length (rows f). (rows fe ! i) k = (rows f ! i) k))))))
   \<and> (predict_single m w p = (w2, r2) \<longrightarrow>
        unchanged w w2 \<and> (\<forall>d. get_dict w p = Some d \<longrightarrow> get_dict w2 p = Some d))
   \<and> (predict_batch m w ps = (w3, r3) \<longrightarrow>
        unchanged w w3 \<and> (\<forall>ds. get_dicts w ps = Some ds \<longrightarrow> get_dicts w3 ps = Some ds))"
proof (intro conjI impI allI)
  assume c: "create_engineered_features w a = (w1, r1)"
  then show "unchanged w w1"
    by (rule unchanged_create_engineered_features)
next
  fix f
  assume "create_engineered_features w a = (w1, r1)" and "get_frame w a = Some f"
  then show "get_frame w1 a = Some f"
    using unchanged_create_engineered_features unchanged_get_frame by blast
next
  fix f d fe
  assume c: "create_engineered_features w a = (w1, r1)" and f: "get_frame w a = Some f"
    and r: "r1 = Inr d \<and> get_frame w1 d = Some fe"
  then have fe: "fe = engineer_frame f"
    using create_engineered_features_keeps by blast
  then show "length (rows fe) = length (rows f)"
    by (simp add: engineer_frame_def)
  show "\<forall>k\<in>set (columns f).
          k \<in> set (columns fe)
          \<and> (k \<notin> set engineered_columns \<longrightarrow>
                (\<forall>i<length (rows f). (rows fe ! i) k = (rows f ! i) k))"
    using columns_engineer_frame [of f]
    by (auto simp: fe engineer_frame_def engineer_row_other)
next
  assume "predict_single m w p = (w2, r2)"
  then show "unchanged w w2"
    by (rule unchanged_predict_single)
next
  fix d
  assume "predict_single m w p = (w2, r2)" and "get_dict w p = Some d"
  then show "get_dict w2 p = Some d"
    using unchanged_predict_single unchanged_get_dict by blast
next
  assume "predict_batch m w ps = (w3, r3)"
  then show "unchanged w w3"
    by (rule unchanged_predict_batch)
next
  fix ds
  assume "predict_batch m w ps = (w3, r3)" and "get_dicts w ps = Some ds"
  then show "get_dicts w3 ps = Some ds"
    using unchanged_predict_batch unchanged_get_dicts by blast
qed

lemma columns_frame_with_Ac: "columns frame_with_Ac = required_fields @ [''Ac'']"
  by (simp add: frame_with_Ac_def frame_of_dicts_def scenario_A_def add_column_def Let_def
      required_fields_def)

text \<open>
  Claim C10 as stated fails for a column of the argument that has the name of an engineered
  feature: the frame of Scenario A with a column \<open>Ac\<close> of value 1 comes back with \<open>Ac = 2850\<close>.
\<close>

theorem overwritten_column_counterexample:
  "''Ac'' \<in> set (columns frame_with_Ac)
   \<and> cell (rows frame_with_Ac ! 0) ''Ac'' = Int64 1
   \<and> create_engineered_features (world_of_frame frame_with_Ac) 0
       = (\<lparr>objs = [DataFrame frame_with_Ac, DataFrame (engineer_frame frame_with_Ac)],
           calls = []\<rparr>, Inr 1)
   \<and> cell (rows (engineer_frame frame_with_Ac) ! 0) ''Ac'' = Int64 2850"
proof (intro conjI)
  show "''Ac'' \<in> set (columns frame_with_Ac)"
    by (simp add: columns_frame_with_Ac)
  have r: "rows frame_with_Ac = [record_row (scenario_A @ [(''Ac'', Int64 1)])]"
    by (simp add: frame_with_Ac_def rows_single)
  have c1: "cell (record_row (scenario_A @ [(''Ac'', Int64 1)])) ''Ac'' = Int64 1"
    "cell (record_row (scenario_A @ [(''Ac'', Int64 1)])) ''largura'' = Int64 30"
    "cell (record_row (scenario_A @ [(''Ac'', Int64 1)])) ''Altura'' = Int64 95"
    by (rule record_row_cell, simp add: scenario_A_def)+
  show "cell (rows frame_with_Ac ! 0) ''Ac'' = Int64 1"
    by (simp add: r c1)
  have g: "get_frame (world_of_frame frame_with_Ac) 0 = Some frame_with_Ac"
    by (simp add: world_of_frame_def get_frame_def)
  have c: "set raw_columns \<subseteq> set (columns frame_with_Ac)"
    using raw_subset_required by (auto simp: columns_frame_with_Ac)
  show "create_engineered_features (world_of_frame frame_with_Ac) 0
       = (\<lparr>objs = [DataFrame frame_with_Ac, DataFrame (engineer_frame frame_with_Ac)],
           calls = []\<rparr>, Inr 1)"
    using create_engineered_features_ok [OF g c] by (simp add: world_of_frame_def)
  show "cell (rows (engineer_frame frame_with_Ac) ! 0) ''Ac'' = Int64 2850"
    by (simp add: engineer_frame_def r engineer_row_Ac c1)
qed

theorem feature_engineering_copies_argument_witness:
  "unchanged demo_world (fst (create_engineered_features demo_world 0))
   \<and> get_frame (fst (create_engineered_features demo_world 0)) 0
       = Some (frame_of_dicts [scenario_A])
   \<and> create_engineered_features demo_world 0
       = (demo_world\<lparr>objs := objs demo_world
                          @ [DataFrame (engineer_frame (frame_of_dicts [scenario_A]))]\<rparr>, Inr 2)
   \<and> (rows (engineer_frame (frame_of_dicts [scenario_A])) ! 0) ''fck'' = Some (Int64 50)
   \<and> unchanged demo_world (fst (predict_single demo_models demo_world 1))
   \<and> get_dict (fst (predict_single demo_models demo_world 1)) 1 = Some scenario_A
   \<and> unchanged demo_world (fst (predict_batch demo_models demo_world [1]))
   \<and> get_dicts (fst (predict_batch demo_models demo_world [1])) [1] = Some [scenario_A]"
proof -
  let ?F = "frame_of_dicts [scenario_A]"
  let ?c = "create_engineered_features demo_world 0"
  let ?s = "predict_single demo_models demo_world 1"
  let ?b = "predict_batch demo_models demo_world [1]"
  have g: "get_frame demo_world 0 = Some ?F"
    by (simp add: demo_world_def get_frame_def)
  have gd: "get_dict demo_world 1 = Some scenario_A"
    by (simp add: demo_world_def get_dict_def)
  have gds: "get_dicts demo_world [1] = Some [scenario_A]"
    by (simp add: demo_world_def get_dict_def)
  have c: "set raw_columns \<subseteq> set (columns ?F)"
    using raw_subset_required by (simp add: columns_scenario_A)
  have ok: "?c = (demo_world\<lparr>objs := objs demo_world @ [DataFrame (engineer_frame ?F)]\<rparr>, Inr 2)"
    using create_engineered_features_ok [OF g c] by (simp add: demo_world_def)
  have ge: "get_frame (fst ?c) 2 = Some (engineer_frame ?F)"
    unfolding ok by (simp add: get_frame_def demo_world_def)
  have k: "''fck'' \<in> set (columns ?F)" "''fck'' \<notin> set engineered_columns"
    by (simp_all add: columns_scenario_A required_fields_def engineered_columns_def)
  have v: "(rows ?F ! 0) ''fck'' = Some (Int64 50)"
    unfolding rows_single record_row_def columns_scenario_A
    by (simp add: row_of_dict_def required_fields_def scenario_A_def int_column_def)
  have n: "0 < length (rows ?F)"
    by (simp add: rows_single)
  note t = feature_engineering_copies_argument
    [of demo_world 0 "fst ?c" "snd ?c" demo_models 1 "fst ?s" "snd ?s" "[1]" "fst ?b" "snd ?b"]
  from t g have 1: "unchanged demo_world (fst ?c)" "get_frame (fst ?c) 0 = Some ?F"
    by simp_all
  from t g ge ok have "\<forall>k\<in>set (columns ?F). k \<in> set (columns (engineer_frame ?F))
      \<and> (k \<notin> set engineered_columns \<longrightarrow>
            (\<forall>i<length (rows ?F). (rows (engineer_frame ?F) ! i) k = (rows ?F ! i) k))"
    by simp
  with k n v have 2: "(rows (engineer_frame ?F) ! 0) ''fck'' = Some (Int64 50)"
    by auto
  from t gd have 3: "unchanged demo_world (fst ?s)" "get_dict (fst ?s) 1 = Some scenario_A"
    by simp_all
  from t gds have 4: "unchanged demo_world (fst ?b)" "get_dicts (fst ?b) [1] = Some [scenario_A]"
    by simp_all
  from 1 2 3 4 ok show ?thesis
    by simp
qed
section \<open>The two-stage predictor\<close>

lemma predict_single_ok:
  assumes "get_dict w p = Some d" and "set required_fields \<subseteq> fst ` set d"
  shows "predict_single m w p =
           (w\<lparr>objs := objs w @ [DataFrame (frame_of_dicts [d]), DataFrame (frame_of_dicts [d]),
                                 DataFrame (engineer_frame (frame_of_dicts [d]))],
              calls := calls w @ single_calls m d\<rparr>,
            Inr (single_table m d))"
proof -
  define f0 where "f0 = frame_of_dicts [d]"
  define w1 where "w1 = w\<lparr>objs := objs w @ [DataFrame f0]\<rparr>"
  have cols: "set required_fields \<subseteq> set (columns f0)"
    using assms(2) by (simp add: f0_def set_columns_frame_of_dicts)
  have g1: "get_frame w1 (length (objs w)) = Some f0"
    by (simp add: w1_def get_frame_def)
  have raw: "set raw_columns \<subseteq> set (columns f0)"
    using cols raw_subset_required by auto
  have p: "process_pillar_data w1 (length (objs w)) =
             (w1\<lparr>objs := objs w1 @ [DataFrame f0, DataFrame (engineer_frame f0)]\<rparr>,
              Inr (Suc (length (objs w1))))"
    by (rule process_pillar_data_ok [OF g1 raw])
  have rw: "rows f0 = [record_row d]"
    by (simp add: f0_def rows_single)
  have sel: "select_columns (engineer_frame f0) FEATURE_COLUMNS
               = Inr [map (cell (engineer_row (record_row d))) FEATURE_COLUMNS]"
    using cols by (simp add: select_columns_engineer_frame rw)
  have x: "map (to_float \<circ> cell (engineer_row (record_row d))) FEATURE_COLUMNS
             = record_features d"
    by (simp add: record_features_def features_def comp_def)
  have re: "rows (engineer_frame f0) = [engineer_row (record_row d)]"
    by (simp add: engineer_frame_def rw)
  show ?thesis
    using assms(1) p sel re
    by (simp add: predict_single_def alloc_def f0_def [symmetric] w1_def get_frame_def
        nth_append log_call_def single_table_def single_calls_def Let_def x)
qed

lemma engineer_row_cong:
  assumes "map (cell r) required_fields = map (cell r') required_fields"
  shows "map (cell (engineer_row r)) (''Ac'' # FEATURE_COLUMNS)
           = map (cell (engineer_row r')) (''Ac'' # FEATURE_COLUMNS)"
  using assms
  by (simp add: required_fields_def FEATURE_COLUMNS_def engineer_row_def Let_def cell_fun_upd)

lemma results_df_nth:
  assumes "i < length feasibility"
  shows "results_df feasibility probs final_rho final_As as_actual Ac_col ! i =
           \<lparr>rho_predicted = final_rho ! i, As_predicted = final_As ! i,
            As_actual = as_actual ! i, Ac = Ac_col ! i,
            is_feasible = feasibility ! i, prob_feasible = probs ! i\<rparr>"
  using assms by (simp add: results_df_def)

lemma length_batch_table: "length (batch_table m f) = length (rows f)"
  by (simp add: batch_table_def results_df_def Let_def feature_matrix_def)

lemma batch_table_nth:
  assumes "i < length (rows f)"
  shows "rho_predicted (batch_table m f ! i)
           = (if classifier_predict m (features (rows f ! i)) = 1
              then Float64 (regressor_predict m (features (rows f ! i))) else Float64 (Num 0))"
    and "As_predicted (batch_table m f ! i)
           = (if classifier_predict m (features (rows f ! i)) = 1
              then np_mul (Float64 (regressor_predict m (features (rows f ! i))))
                          (cell (engineer_row (rows f ! i)) ''Ac'')
              else Float64 (Num 0))"
    and "Ac (batch_table m f ! i) = cell (engineer_row (rows f ! i)) ''Ac''"
    and "is_feasible (batch_table m f ! i) = classifier_predict m (features (rows f ! i))"
    and "prob_feasible (batch_table m f ! i) = classifier_predict_proba m (features (rows f ! i))"
  using assms
  by (simp_all add: batch_table_def Let_def results_df_nth feature_matrix_def)

lemma np_mul_ints:
  "np_mul (Int64 x) (Int64 y) = Int64 (x * y)
   \<and> 2 ^ 64 dvd (sint (x * y) - sint x * sint y)
   \<and> (- (2 ^ 63) \<le> sint x * sint y \<and> sint x * sint y < 2 ^ 63 \<longrightarrow> sint (x * y) = sint x * sint y)"
  using sint_mult_wraps [of x y] sint_mult_exact [of x y] by simp

text \<open>
  Claim C1, as amended. \<open>predict_single\<close> on a record with the required fields returns a
  result whose \<open>Ac\<close> is the product of width and height in the arithmetic of their dtypes:
  for two integers the product modulo \<open>2^64\<close>, which is the product itself when that fits
  in 64 bits. When the classifier's label is 0 the status is Infeasible, the predicted
  ratio and steel area are 0 and the only calls made are the two to the classifier: the
  regressor is not invoked. When the label is 1 the status is Feasible and the predicted
  steel area is the predicted ratio times \<open>Ac\<close>. \<open>predict_batch\<close> returns one row per record,
  with \<open>Ac\<close> the product of the cells of width and height, the classifier's label, zeros
  where the label is 0 and the steel area equal to the ratio times \<open>Ac\<close> where it is 1.
\<close>

theorem feasibility_gate:
  "(get_dict w p = Some d \<and> set required_fields \<subseteq> fst ` set d \<longrightarrow>
      (\<exists>w' res. predict_single m w p = (w', Inr res)
         \<and> (\<forall>b h. map_of d ''largura'' = Some b \<and> map_of d ''Altura'' = Some h
               \<longrightarrow> Ac res = np_mul b h
                 \<and> (\<forall>x y. b = Int64 x \<and> h = Int64 y \<longrightarrow>
                       Ac res = Int64 (x * y)
                       \<and> 2 ^ 64 dvd (sint (x * y) - sint x * sint y)
                       \<and> (- (2 ^ 63) \<le> sint x * sint y \<and> sint x * sint y < 2 ^ 63
                             \<longrightarrow> sint (x * y) = sint x * sint y)))
         \<and> (classifier_predict m (record_features d) = 0 \<longrightarrow>
               status res = ''Infeasible'' \<and> rho_predicted res = Float64 (Num 0)
               \<and> As_predicted res = Float64 (Num 0)
               \<and> calls w' = calls w @ [Classifier_predict, Classifier_predict_proba])
         \<and> (classifier_predict m (record_features d) = 1 \<longrightarrow>
               status res = ''Feasible''
               \<and> rho_predicted res = Float64 (regressor_predict m (record_features d))
               \<and> As_predicted res = np_mul (rho_predicted res) (Ac res)
               \<and> As_predicted res
                    = Float64 (f_mul (regressor_predict m (record_features d))
                                     (to_float (Ac res))))))
   \<and> (get_dicts w ps = Some ds \<and> set required_fields \<subseteq> set (columns (frame_of_dicts ds)) \<longrightarrow>
      (\<exists>w' tab. predict_batch m w ps = (w', Inr tab) \<and> length tab = length ds
         \<and> (\<forall>i<length ds.
               Ac (tab ! i) = np_mul (cell (rows (frame_of_dicts ds) ! i) ''largura'')
                                     (cell (rows (frame_of_dicts ds) ! i) ''Altura'')
               \<and> is_feasible (tab ! i)
                    = classifier_predict m (feature_matrix (frame_of_dicts ds) ! i)
               \<and> (is_feasible (tab ! i) = 0 \<longrightarrow>
                     rho_predicted (tab ! i) = Float64 (Num 0)
                     \<and> As_predicted (tab ! i) = Float64 (Num 0))
               \<and> (is_feasible (tab ! i) = 1 \<longrightarrow>
                     rho_predicted (tab ! i)
                       = Float64 (regressor_predict m (feature_matrix (frame_of_dicts ds) ! i))
                     \<and> As_predicted (tab ! i) = np_mul (rho_predicted (tab ! i)) (Ac (tab ! i))))))"
  (is "?single \<and> ?batch")
proof
  show ?single
  proof (intro impI, elim conjE)
    assume d: "get_dict w p = Some d" and v: "set required_fields \<subseteq> fst ` set d"
    have ac: "\<And>b h. map_of d ''largura'' = Some b \<Longrightarrow> map_of d ''Altura'' = Some h
                \<Longrightarrow> Ac (single_table m d) = np_mul b h"
      by (simp add: single_table_def Let_def engineer_row_Ac record_row_cell)
    show "\<exists>w' res. predict_single m w p = (w', Inr res)
         \<and> (\<forall>b h. map_of d ''largura'' = Some b \<and> map_of d ''Altura'' = Some h
               \<longrightarrow> Ac res = np_mul b h
                 \<and> (\<forall>x y. b = Int64 x \<and> h = Int64 y \<longrightarrow>
                       Ac res = Int64 (x * y)
                       \<and> 2 ^ 64 dvd (sint (x * y) - sint x * sint y)
                       \<and> (- (2 ^ 63) \<le> sint x * sint y \<and> sint x * sint y < 2 ^ 63
                             \<longrightarrow> sint (x * y) = sint x * sint y)))
         \<and> (classifier_predict m (record_features d) = 0 \<longrightarrow>
               status res = ''Infeasible'' \<and> rho_predicted res = Float64 (Num 0)
               \<and> As_predicted res = Float64 (Num 0)
               \<and> calls w' = calls w @ [Classifier_predict, Classifier_predict_proba])
         \<and> (classifier_predict m (record_features d) = 1 \<longrightarrow>
               status res = ''Feasible''
               \<and> rho_predicted res = Float64 (regressor_predict m (record_features d))
               \<and> As_predicted res = np_mul (rho_predicted res) (Ac res)
               \<and> As_predicted res
                    = Float64 (f_mul (regressor_predict m (record_features d))
                                     (to_float (Ac res))))"
      unfolding predict_single_ok [OF d v]
    proof (intro exI conjI allI impI, rule refl)
      fix b h
      assume "map_of d ''largura'' = Some b \<and> map_of d ''Altura'' = Some h"
      then show a: "Ac (single_table m d) = np_mul b h"
        using ac by blast
      fix x y
      assume "b = Int64 x \<and> h = Int64 y"
      with a show "Ac (single_table m d) = Int64 (x * y)"
        by simp
      show "2 ^ 64 dvd (sint (x * y) - sint x * sint y)"
        using np_mul_ints by blast
      assume "- (2 ^ 63) \<le> sint x * sint y \<and> sint x * sint y < 2 ^ 63"
      then show "sint (x * y) = sint x * sint y"
        using np_mul_ints by blast
    next
      assume "classifier_predict m (record_features d) = 0"
      then show "status (single_table m d) = ''Infeasible''"
        "rho_predicted (single_table m d) = Float64 (Num 0)"
        "As_predicted (single_table m d) = Float64 (Num 0)"
        "calls (w\<lparr>objs := objs w @ [DataFrame (frame_of_dicts [d]), DataFrame (frame_of_dicts [d]),
                                 DataFrame (engineer_frame (frame_of_dicts [d]))],
              calls := calls w @ single_calls m d\<rparr>)
           = calls w @ [Classifier_predict, Classifier_predict_proba]"
        by (simp_all add: single_table_def single_calls_def Let_def)
    next
      assume "classifier_predict m (record_features d) = 1"
      then show "status (single_table m d) = ''Feasible''"
        "rho_predicted (single_table m d) = Float64 (regressor_predict m (record_features d))"
        "As_predicted (single_table m d)
           = np_mul (rho_predicted (single_table m d)) (Ac (single_table m d))"
        "As_predicted (single_table m d)
           = Float64 (f_mul (regressor_predict m (record_features d))
                            (to_float (Ac (single_table m d))))"
        by (simp_all add: single_table_def Let_def)
    qed
  qed
next
  show ?batch
  proof (intro impI, elim conjE)
    assume d: "get_dicts w ps = Some ds"
      and v: "set required_fields \<subseteq> set (columns (frame_of_dicts ds))"
    have n: "length (rows (frame_of_dicts ds)) = length ds"
      by (simp add: rows_frame_of_dicts)
    show "\<exists>w' tab. predict_batch m w ps = (w', Inr tab) \<and> length tab = length ds
         \<and> (\<forall>i<length ds.
               Ac (tab ! i) = np_mul (cell (rows (frame_of_dicts ds) ! i) ''largura'')
                                     (cell (rows (frame_of_dicts ds) ! i) ''Altura'')
               \<and> is_feasible (tab ! i)
                    = classifier_predict m (feature_matrix (frame_of_dicts ds) ! i)
               \<and> (is_feasible (tab ! i) = 0 \<longrightarrow>
                     rho_predicted (tab ! i) = Float64 (Num 0)
                     \<and> As_predicted (tab ! i) = Float64 (Num 0))
               \<and> (is_feasible (tab ! i) = 1 \<longrightarrow>
                     rho_predicted (tab ! i)
                       = Float64 (regressor_predict m (feature_matrix (frame_of_dicts ds) ! i))
                     \<and> As_predicted (tab ! i) = np_mul (rho_predicted (tab ! i)) (Ac (tab ! i))))"
      unfolding predict_batch_ok [OF d v]
      by (intro exI conjI, rule refl)
         (simp_all add: length_batch_table n batch_table_nth engineer_row_Ac feature_matrix_def)
  qed
qed

lemma cell_engineer_row_other:
  "k \<notin> set engineered_columns \<Longrightarrow> cell (engineer_row r) k = cell r k"
  by (simp add: cell_def engineer_row_other)

lemma features_N_top: "features r ! 5 = to_float (cell r ''N_top'')"
  by (simp add: features_def FEATURE_COLUMNS_def cell_engineer_row_other
      engineered_columns_def)

lemma record_features_N_top: "record_features d ! 5 = to_float (cell (record_row d) ''N_top'')"
  by (simp add: record_features_def features_N_top)

lemma feature_matrix_N_top:
  "i < length (rows f) \<Longrightarrow> feature_matrix f ! i ! 5 = to_float (cell (rows f ! i) ''N_top'')"
  by (simp add: feature_matrix_def features_N_top)

lemma two_pillars_world_dicts:
  "get_dict two_pillars_world 0 = Some scenario_A"
  "get_dict two_pillars_world 1 = Some extreme_pillar"
  "get_dicts two_pillars_world [0, 1] = Some [scenario_A, extreme_pillar]"
  "calls two_pillars_world = []"
  by (simp_all add: two_pillars_world_def world_of_dicts_def get_dict_def)

lemma valid_examples:
  "set required_fields \<subseteq> fst ` set scenario_A"
  "set required_fields \<subseteq> fst ` set extreme_pillar"
  "set required_fields \<subseteq> fst ` set huge_pillar"
  "set required_fields \<subseteq> fst ` set float_pillar"
  by (simp_all add: required_fields_def scenario_A_def extreme_pillar_def huge_pillar_def
      float_pillar_def)

lemma example_fields:
  "map_of scenario_A ''N_top'' = Some (Int64 392)"
  "map_of scenario_A ''largura'' = Some (Int64 30)"
  "map_of scenario_A ''Altura'' = Some (Int64 95)"
  "map_of extreme_pillar ''N_top'' = Some (Int64 5000)"
  "map_of extreme_pillar ''largura'' = Some (Int64 45)"
  "map_of extreme_pillar ''Altura'' = Some (Int64 15)"
  "map_of huge_pillar ''N_top'' = Some (Int64 392)"
  "map_of huge_pillar ''largura'' = Some (Int64 4294967296)"
  "map_of huge_pillar ''Altura'' = Some (Int64 4294967296)"
  "map_of float_pillar ''N_top'' = Some (Int64 392)"
  "map_of float_pillar ''largura'' = Some (Float64 (Num 30))"
  "map_of float_pillar ''Altura'' = Some (Float64 (Num 95))"
  by (simp_all add: scenario_A_def extreme_pillar_def huge_pillar_def float_pillar_def)

lemma demo_models_simps:
  "classifier_predict demo_models x = (if x ! 5 = Num 5000 then 0 else 1)"
  "classifier_predict_proba demo_models x = (if x ! 5 = Num 5000 then Num 0.1 else Num 0.9)"
  "regressor_predict demo_models x = Num 0.01"
  by (simp_all add: demo_models_def)

lemma demo_labels:
  "classifier_predict demo_models (record_features scenario_A) = 1"
  "classifier_predict demo_models (record_features extreme_pillar) = 0"
  "classifier_predict demo_models (record_features huge_pillar) = 1"
  by (simp_all add: demo_models_simps record_features_N_top record_row_cell example_fields)

lemma huge_world_dicts:
  "get_dict huge_world 0 = Some huge_pillar"
  "get_dicts huge_world [0, 1] = Some [huge_pillar, float_pillar]"
  by (simp_all add: huge_world_def world_of_dicts_def get_dict_def)

text \<open>
  Claim C1 as stated fails where the product of an integer width and height does not fit in
  64 bits: for the feasible record with a width and a height of \<open>2^32\<close>, whose product is
  \<open>2^64\<close>, \<open>predict_single\<close> returns \<open>Ac = 0\<close> and with it a steel area of 0, the predicted
  ratio being 0.01.
\<close>

theorem product_wraps_counterexample:
  "get_dict huge_world 0 = Some huge_pillar
   \<and> set required_fields \<subseteq> fst ` set huge_pillar
   \<and> map_of huge_pillar ''largura'' = Some (Int64 4294967296)
   \<and> map_of huge_pillar ''Altura'' = Some (Int64 4294967296)
   \<and> sint (4294967296 :: int64) * sint (4294967296 :: int64) = 18446744073709551616
   \<and> snd (predict_single demo_models huge_world 0) = Inr (single_table demo_models huge_pillar)
   \<and> status (single_table demo_models huge_pillar) = ''Feasible''
   \<and> rho_predicted (single_table demo_models huge_pillar) = Float64 (Num 0.01)
   \<and> Ac (single_table demo_models huge_pillar) = Int64 0
   \<and> As_predicted (single_table demo_models huge_pillar) = Float64 (Num 0)"
proof (intro conjI)
  show "get_dict huge_world 0 = Some huge_pillar"
    by (rule huge_world_dicts)
  show "set required_fields \<subseteq> fst ` set huge_pillar"
    by (rule valid_examples)
  show "map_of huge_pillar ''largura'' = Some (Int64 4294967296)"
    "map_of huge_pillar ''Altura'' = Some (Int64 4294967296)"
    by (rule example_fields)+
  show "sint (4294967296 :: int64) * sint (4294967296 :: int64) = 18446744073709551616"
    by simp
  show "snd (predict_single demo_models huge_world 0) = Inr (single_table demo_models huge_pillar)"
    by (simp add: predict_single_ok [OF huge_world_dicts(1) valid_examples(3)])
  have ac: "cell (engineer_row (record_row huge_pillar)) ''Ac'' = Int64 0"
    by (simp add: engineer_row_Ac cells_huge_pillar)
  show "status (single_table demo_models huge_pillar) = ''Feasible''"
    "rho_predicted (single_table demo_models huge_pillar) = Float64 (Num 0.01)"
    by (simp_all add: single_table_def Let_def demo_labels demo_models_simps(3))
  show "Ac (single_table demo_models huge_pillar) = Int64 0"
    by (simp add: single_table_def Let_def ac)
  show "As_predicted (single_table demo_models huge_pillar) = Float64 (Num 0)"
    by (simp add: single_table_def Let_def demo_labels demo_models_simps(3) ac fl_small)
qed

theorem feasibility_gate_witness:
  "(\<exists>w' res. predict_single demo_models two_pillars_world 0 = (w', Inr res)
       \<and> status res = ''Feasible'' \<and> Ac res = Int64 2850
       \<and> As_predicted res = Float64 (Num 28.5))
   \<and> (\<exists>w' res. predict_single demo_models two_pillars_world 1 = (w', Inr res)
       \<and> status res = ''Infeasible'' \<and> rho_predicted res = Float64 (Num 0)
       \<and> As_predicted res = Float64 (Num 0)
       \<and> calls w' = [Classifier_predict, Classifier_predict_proba])
   \<and> (\<exists>w' tab. predict_batch demo_models two_pillars_world [0, 1] = (w', Inr tab)
       \<and> length tab = 2
       \<and> is_feasible (tab ! 0) = 1 \<and> Ac (tab ! 0) = Int64 2850
       \<and> As_predicted (tab ! 0) = Float64 (Num 28.5)
       \<and> is_feasible (tab ! 1) = 0 \<and> As_predicted (tab ! 1) = Float64 (Num 0))"
proof (intro conjI)
  let ?ds = "[scenario_A, extreme_pillar]"
  have cols: "set required_fields \<subseteq> set (columns (frame_of_dicts ?ds))"
    using valid_examples(1) by (auto simp: set_columns_frame_of_dicts)
  note t0 = feasibility_gate [of two_pillars_world 0 scenario_A demo_models "[0, 1]" "?ds"]
  note t1 = feasibility_gate [of two_pillars_world 1 extreme_pillar demo_models "[0, 1]" "?ds"]
  from t0 two_pillars_world_dicts valid_examples demo_labels example_fields
  obtain w' res where "predict_single demo_models two_pillars_world 0 = (w', Inr res)"
    "Ac res = np_mul (Int64 30) (Int64 95)" "status res = ''Feasible''"
    "rho_predicted res = Float64 (regressor_predict demo_models (record_features scenario_A))"
    "As_predicted res = np_mul (rho_predicted res) (Ac res)"
    by auto
  then show "\<exists>w' res. predict_single demo_models two_pillars_world 0 = (w', Inr res)
       \<and> status res = ''Feasible'' \<and> Ac res = Int64 2850
       \<and> As_predicted res = Float64 (Num 28.5)"
    by (simp add: demo_models_simps fl_small)
  from t1 two_pillars_world_dicts valid_examples demo_labels
  obtain w' res where "predict_single demo_models two_pillars_world 1 = (w', Inr res)"
    "status res = ''Infeasible''" "rho_predicted res = Float64 (Num 0)"
    "As_predicted res = Float64 (Num 0)"
    "calls w' = calls two_pillars_world @ [Classifier_predict, Classifier_predict_proba]"
    by auto
  then show "\<exists>w' res. predict_single demo_models two_pillars_world 1 = (w', Inr res)
       \<and> status res = ''Infeasible'' \<and> rho_predicted res = Float64 (Num 0)
       \<and> As_predicted res = Float64 (Num 0)
       \<and> calls w' = [Classifier_predict, Classifier_predict_proba]"
    by (simp add: two_pillars_world_dicts)
  have n: "length (rows (frame_of_dicts ?ds)) = 2"
    by (simp add: rows_frame_of_dicts)
  have ic: "int_column ?ds ''N_top''" "int_column ?ds ''largura''" "int_column ?ds ''Altura''"
    by (simp_all add: int_column_def example_fields)
  have c0: "cell (rows (frame_of_dicts ?ds) ! 0) ''N_top'' = Int64 392"
    "cell (rows (frame_of_dicts ?ds) ! 0) ''largura'' = Int64 30"
    "cell (rows (frame_of_dicts ?ds) ! 0) ''Altura'' = Int64 95"
    using batch_row_cell [of 0 "?ds"] by (simp_all add: example_fields ic)
  have c1: "cell (rows (frame_of_dicts ?ds) ! Suc 0) ''N_top'' = Int64 5000"
    using batch_row_cell [of "Suc 0" "?ds" "''N_top''"] by (simp add: example_fields ic)
  have l: "classifier_predict demo_models (feature_matrix (frame_of_dicts ?ds) ! 0) = 1"
    "classifier_predict demo_models (feature_matrix (frame_of_dicts ?ds) ! Suc 0) = 0"
    by (simp_all add: demo_models_simps feature_matrix_N_top n c0 c1)
  from t0 two_pillars_world_dicts cols
  obtain w' tab where b: "predict_batch demo_models two_pillars_world [0, 1] = (w', Inr tab)"
    "length tab = length ?ds"
    and a: "\<forall>i<length ?ds.
               Ac (tab ! i) = np_mul (cell (rows (frame_of_dicts ?ds) ! i) ''largura'')
                                     (cell (rows (frame_of_dicts ?ds) ! i) ''Altura'')
               \<and> is_feasible (tab ! i)
                    = classifier_predict demo_models (feature_matrix (frame_of_dicts ?ds) ! i)
               \<and> (is_feasible (tab ! i) = 0 \<longrightarrow>
                     rho_predicted (tab ! i) = Float64 (Num 0)
                     \<and> As_predicted (tab ! i) = Float64 (Num 0))
               \<and> (is_feasible (tab ! i) = 1 \<longrightarrow>
                     rho_predicted (tab ! i)
                       = Float64 (regressor_predict demo_models (feature_matrix (frame_of_dicts ?ds) ! i))
                     \<and> As_predicted (tab ! i) = np_mul (rho_predicted (tab ! i)) (Ac (tab ! i)))"
    by blast
  from a have f0: "is_feasible (tab ! 0) = 1"
    by (simp add: l)
  from a f0 have "Ac (tab ! 0) = Int64 2850"
    "rho_predicted (tab ! 0)
       = Float64 (regressor_predict demo_models (feature_matrix (frame_of_dicts ?ds) ! 0))"
    "As_predicted (tab ! 0) = np_mul (rho_predicted (tab ! 0)) (Ac (tab ! 0))"
    by (simp_all add: c0)
  with f0 have a0: "Ac (tab ! 0) = Int64 2850" "is_feasible (tab ! 0) = 1"
    "As_predicted (tab ! 0) = Float64 (Num 28.5)"
    by (simp_all add: demo_models_simps(3) fl_small)
  from a have a1: "is_feasible (tab ! 1) = 0" "As_predicted (tab ! 1) = Float64 (Num 0)"
    by (simp_all add: l)
  from b a0 a1 show "\<exists>w' tab. predict_batch demo_models two_pillars_world [0, 1] = (w', Inr tab)
       \<and> length tab = 2
       \<and> is_feasible (tab ! 0) = 1 \<and> Ac (tab ! 0) = Int64 2850
       \<and> As_predicted (tab ! 0) = Float64 (Num 28.5)
       \<and> is_feasible (tab ! 1) = 0 \<and> As_predicted (tab ! 1) = Float64 (Num 0)"
    by simp
qed

section \<open>Batch and single prediction on the same record\<close>

lemma sint_add_exact:
  "- (2 ^ 63) \<le> sint x + sint y \<Longrightarrow> sint x + sint y < 2 ^ 63
     \<Longrightarrow> sint (x + y :: int64) = sint x + sint y"
  by (simp add: sint_word_ariths signed_take_bit_int_eq_self)

lemma sint_sub_exact:
  "- (2 ^ 63) \<le> sint x - sint y \<Longrightarrow> sint x - sint y < 2 ^ 63
     \<Longrightarrow> sint (x - y :: int64) = sint x - sint y"
  by (simp add: sint_word_ariths signed_take_bit_int_eq_self)

lemma sint_neg_exact:
  "- (2 ^ 63) < sint x \<Longrightarrow> sint (- x :: int64) = - sint x"
  using sint_lt [of x] by (simp add: sint_word_ariths signed_take_bit_int_eq_self)

lemma fl_int: "\<bar>k\<bar> \<le> 2 ^ 63 \<Longrightarrow> fl (real_of_int k) = Num (real_of_int k)"
proof (rule fl_small)
  assume "\<bar>k\<bar> \<le> 2 ^ 63"
  then have "real_of_int \<bar>k\<bar> \<le> real_of_int (2 ^ 63)"
    by (simp only: of_int_le_iff)
  then show "\<bar>real_of_int k\<bar> \<le> 10 ^ 30"
    by simp
qed

lemma abs_mult_less:
  fixes i j n m :: int
  assumes "\<bar>i\<bar> < n" and "\<bar>j\<bar> < m"
  shows "\<bar>i * j\<bar> < n * m"
  unfolding abs_mult using assms by (intro mult_strict_mono') simp_all

lemma agree_belowD: "agree_below n a a' \<Longrightarrow> to_float a = to_float a'"
  by (simp add: agree_below_def)

lemma np_add_exact:
  assumes "below n a" and "below m b" and "n + m \<le> 2 ^ 63"
  shows "to_float (np_add a b) = f_add (to_float a) (to_float b) \<and> below (n + m) (np_add a b)"
proof (cases a; cases b)
  fix x y
  assume a: "a = Int64 x" and b: "b = Int64 y"
  from assms a b have xy: "\<bar>sint x\<bar> < n" "\<bar>sint y\<bar> < m"
    by simp_all
  have s: "sint (x + y) = sint x + sint y"
    using xy assms(3) by (intro sint_add_exact) linarith+
  have "\<bar>sint x + sint y\<bar> \<le> 2 ^ 63"
    using xy assms(3) by linarith
  from fl_int [OF this] s xy show ?thesis
    by (simp add: a b del: of_int_sint)
qed simp_all

lemma np_sub_exact:
  assumes "below n a" and "below m b" and "n + m \<le> 2 ^ 63"
  shows "to_float (np_sub a b) = f_sub (to_float a) (to_float b) \<and> below (n + m) (np_sub a b)"
proof (cases a; cases b)
  fix x y
  assume a: "a = Int64 x" and b: "b = Int64 y"
  from assms a b have xy: "\<bar>sint x\<bar> < n" "\<bar>sint y\<bar> < m"
    by simp_all
  have s: "sint (x - y) = sint x - sint y"
    using xy assms(3) by (intro sint_sub_exact) linarith+
  have "\<bar>sint x - sint y\<bar> \<le> 2 ^ 63"
    using xy assms(3) by linarith
  from fl_int [OF this] s xy show ?thesis
    by (simp add: a b f_sub_def del: of_int_sint)
qed simp_all

lemma np_mul_exact:
  assumes "below n a" and "below m b" and "n * m \<le> 2 ^ 63"
  shows "to_float (np_mul a b) = f_mul (to_float a) (to_float b) \<and> below (n * m) (np_mul a b)"
proof (cases a; cases b)
  fix x y
  assume a: "a = Int64 x" and b: "b = Int64 y"
  from assms a b have xy: "\<bar>sint x\<bar> < n" "\<bar>sint y\<bar> < m"
    by simp_all
  have l: "\<bar>sint x * sint y\<bar> < n * m"
    using xy by (rule abs_mult_less)
  have s: "sint (x * y) = sint x * sint y"
    using l assms(3) by (intro sint_mult_exact) linarith+
  have "\<bar>sint x * sint y\<bar> \<le> 2 ^ 63"
    using l assms(3) by linarith
  from fl_int [OF this] s l show ?thesis
    by (simp add: a b del: of_int_sint)
qed simp_all

lemma np_abs_exact:
  assumes "below n a" and "n \<le> 2 ^ 63"
  shows "to_float (np_abs a) = f_abs (to_float a) \<and> below n (np_abs a)"
proof (cases a)
  fix x
  assume a: "a = Int64 x"
  from assms a have x: "\<bar>sint x\<bar> < n"
    by simp
  have "sint (- x) = - sint x"
    using x assms(2) by (intro sint_neg_exact) linarith
  with x show ?thesis
    by (simp add: a del: of_int_sint, arith)
qed simp

lemma np_maximum_exact:
  assumes "below n a" and "below n b"
  shows "to_float (np_maximum a b) = f_max (to_float a) (to_float b)
         \<and> below n (np_maximum a b)"
  using assms by (cases a; cases b) (simp_all add: max_def del: of_int_sint)

lemma agree_below_add:
  assumes "agree_below n a a'" and "agree_below m b b'" and "n + m \<le> 2 ^ 63"
  shows "agree_below (n + m) (np_add a b) (np_add a' b')"
  using assms np_add_exact [of n a m b] np_add_exact [of n a' m b']
  by (simp add: agree_below_def)

lemma agree_below_sub:
  assumes "agree_below n a a'" and "agree_below m b b'" and "n + m \<le> 2 ^ 63"
  shows "agree_below (n + m) (np_sub a b) (np_sub a' b')"
  using assms np_sub_exact [of n a m b] np_sub_exact [of n a' m b']
  by (simp add: agree_below_def)

lemma agree_below_mul:
  assumes "agree_below n a a'" and "agree_below m b b'" and "n * m \<le> 2 ^ 63"
  shows "agree_below (n * m) (np_mul a b) (np_mul a' b')"
  using assms np_mul_exact [of n a m b] np_mul_exact [of n a' m b']
  by (simp add: agree_below_def)

lemma agree_below_abs:
  assumes "agree_below n a a'" and "n \<le> 2 ^ 63"
  shows "agree_below n (np_abs a) (np_abs a')"
  using assms np_abs_exact [of n a] np_abs_exact [of n a']
  by (simp add: agree_below_def)

lemma agree_below_maximum:
  assumes "agree_below n a a'" and "agree_below n b b'"
  shows "agree_below n (np_maximum a b) (np_maximum a' b')"
  using assms np_maximum_exact [of n a b] np_maximum_exact [of n a' b']
  by (simp add: agree_below_def)

lemma sint_eq_0: "sint (x :: int64) = 0 \<longleftrightarrow> x = 0"
  by (rule signed_eq_0_iff)

lemma np_ne_Int64_0: "np_ne a (Int64 0) = f_ne (to_float a) (Num 0)"
  by (cases a) (simp_all add: f_ne_def sint_eq_0 del: of_int_sint)

lemma np_Float64_right:
  "np_add a (Float64 x) = Float64 (f_add (to_float a) x)"
  "np_sub a (Float64 x) = Float64 (f_sub (to_float a) x)"
  "np_mul a (Float64 x) = Float64 (f_mul (to_float a) x)"
  "np_maximum a (Float64 x) = Float64 (f_max (to_float a) x)"
  by (cases a; simp)+

lemma np_Float64_left:
  "np_add (Float64 x) a = Float64 (f_add x (to_float a))"
  "np_sub (Float64 x) a = Float64 (f_sub x (to_float a))"
  "np_mul (Float64 x) a = Float64 (f_mul x (to_float a))"
  "np_maximum (Float64 x) a = Float64 (f_max x (to_float a))"
  by simp_all

lemma engineer_row_agree:
  assumes raw: "\<And>k. k \<in> set raw_columns \<Longrightarrow> agree_below 1000000 (cell r k) (cell r' k)"
    and cob: "to_float (cell r ''Cobrimento'') = to_float (cell r' ''Cobrimento'')"
  shows "map (\<lambda>k. to_float (cell (engineer_row r) k)) (''Ac'' # FEATURE_COLUMNS)
           = map (\<lambda>k. to_float (cell (engineer_row r') k)) (''Ac'' # FEATURE_COLUMNS)"
proof -
  have c: "agree_below 1000000 (cell r ''largura'') (cell r' ''largura'')"
    "agree_below 1000000 (cell r ''Altura'') (cell r' ''Altura'')"
    "agree_below 1000000 (cell r ''PeDireito'') (cell r' ''PeDireito'')"
    "agree_below 1000000 (cell r ''fck'') (cell r' ''fck'')"
    "agree_below 1000000 (cell r ''N_top'') (cell r' ''N_top'')"
    "agree_below 1000000 (cell r ''N_base'') (cell r' ''N_base'')"
    "agree_below 1000000 (cell r ''Mx_top'') (cell r' ''Mx_top'')"
    "agree_below 1000000 (cell r ''Mx_base'') (cell r' ''Mx_base'')"
    "agree_below 1000000 (cell r ''My_top'') (cell r' ''My_top'')"
    "agree_below 1000000 (cell r ''My_base'') (cell r' ''My_base'')"
    by (rule raw, simp add: raw_columns_def)+
  note f = c [THEN agree_belowD]
  have s: "to_float (np_add (cell r ''N_top'') (cell r ''N_base''))
             = to_float (np_add (cell r' ''N_top'') (cell r' ''N_base''))"
    "to_float (np_add (cell r ''Mx_top'') (cell r ''Mx_base''))
             = to_float (np_add (cell r' ''Mx_top'') (cell r' ''Mx_base''))"
    "to_float (np_add (cell r ''My_top'') (cell r ''My_base''))
             = to_float (np_add (cell r' ''My_top'') (cell r' ''My_base''))"
    by (rule agree_belowD [OF agree_below_add], rule c, rule c, simp)+
  have d: "to_float (np_sub (cell r ''N_base'') (cell r ''N_top''))
             = to_float (np_sub (cell r' ''N_base'') (cell r' ''N_top''))"
    "to_float (np_sub (cell r ''Mx_base'') (cell r ''Mx_top''))
             = to_float (np_sub (cell r' ''Mx_base'') (cell r' ''Mx_top''))"
    "to_float (np_sub (cell r ''My_base'') (cell r ''My_top''))
             = to_float (np_sub (cell r' ''My_base'') (cell r' ''My_top''))"
    by (rule agree_belowD [OF agree_below_sub], rule c, rule c, simp)+
  have m: "to_float (np_maximum (np_abs (cell r ''N_top'')) (np_abs (cell r ''N_base'')))
             = to_float (np_maximum (np_abs (cell r' ''N_top'')) (np_abs (cell r' ''N_base'')))"
    "to_float (np_maximum (np_abs (cell r ''Mx_top'')) (np_abs (cell r ''Mx_base'')))
             = to_float (np_maximum (np_abs (cell r' ''Mx_top'')) (np_abs (cell r' ''Mx_base'')))"
    "to_float (np_maximum (np_abs (cell r ''My_top'')) (np_abs (cell r ''My_base'')))
             = to_float (np_maximum (np_abs (cell r' ''My_top'')) (np_abs (cell r' ''My_base'')))"
    by (rule agree_belowD [OF agree_below_maximum]; rule agree_below_abs, rule c, simp)+
  have ac: "agree_below (1000000 * 1000000)
              (np_mul (cell r ''largura'') (cell r ''Altura''))
              (np_mul (cell r' ''largura'') (cell r' ''Altura''))"
    by (rule agree_below_mul, rule c, rule c, simp)
  have p: "to_float (np_mul (np_mul (cell r ''largura'') (cell r ''Altura'')) (cell r ''Altura''))
             = to_float (np_mul (np_mul (cell r' ''largura'') (cell r' ''Altura''))
                                (cell r' ''Altura''))"
    "to_float (np_mul (np_mul (cell r ''largura'') (cell r ''Altura'')) (cell r ''largura''))
             = to_float (np_mul (np_mul (cell r' ''largura'') (cell r' ''Altura''))
                                (cell r' ''largura''))"
    by (rule agree_belowD [OF agree_below_mul], rule ac, rule c, simp)+
  note a = ac [THEN agree_belowD]
  show ?thesis
    by (simp add: FEATURE_COLUMNS_def engineer_row_def Let_def cell_fun_upd np_truediv_def
        np_pow2_def np_sqrt_def np_arctan2_def np_Float64_right np_Float64_left np_ne_Int64_0
        f cob s d m a p)
qed

lemma agree_below_astype_float:
  "below n v \<Longrightarrow> agree_below n v (if c then v else astype_float v)"
  by (simp add: agree_below_def astype_float_def)

lemma valid_record_features_agree:
  assumes "i < length ds" and "set required_fields \<subseteq> fst ` set (ds ! i)"
    and "small_ints (ds ! i) \<or> same_dtypes (ds ! i) ds"
  shows "features (rows (frame_of_dicts ds) ! i) = record_features (ds ! i)"
    and "to_float (cell (engineer_row (rows (frame_of_dicts ds) ! i)) ''Ac'')
           = to_float (cell (engineer_row (record_row (ds ! i))) ''Ac'')"
proof -
  let ?r = "record_row (ds ! i)" and ?r' = "rows (frame_of_dicts ds) ! i"
  have val: "\<exists>v. map_of (ds ! i) k = Some v" if "k \<in> set required_fields" for k
  proof -
    from that assms(2) have "k \<in> fst ` set (ds ! i)"
      by blast
    then show ?thesis
      by (cases "map_of (ds ! i) k") (auto simp: map_of_eq_None_iff)
  qed
  have "map (\<lambda>k. to_float (cell (engineer_row ?r) k)) (''Ac'' # FEATURE_COLUMNS)
          = map (\<lambda>k. to_float (cell (engineer_row ?r') k)) (''Ac'' # FEATURE_COLUMNS)"
    using assms(3)
  proof
    assume s: "small_ints (ds ! i)"
    have ag: "agree_below 1000000 (cell ?r k) (cell ?r' k)" if k: "k \<in> set required_fields" for k
    proof -
      from val [OF k] obtain v where v: "map_of (ds ! i) k = Some v"
        by blast
      from s k v have "below 1000000 v"
        by (auto simp: small_ints_def list_all_iff)
      then show ?thesis
        unfolding record_row_cell [OF v] batch_row_cell [OF assms(1) v]
        by (rule agree_below_astype_float)
    qed
    show ?thesis
    proof (rule engineer_row_agree)
      fix k
      assume "k \<in> set raw_columns"
      with raw_subset_required have "k \<in> set required_fields"
        by blast
      then show "agree_below 1000000 (cell ?r k) (cell ?r' k)"
        by (rule ag)
    next
      show "to_float (cell ?r ''Cobrimento'') = to_float (cell ?r' ''Cobrimento'')"
        by (rule agree_belowD [OF ag]) (simp add: required_fields_def)
    qed
  next
    assume s: "same_dtypes (ds ! i) ds"
    have "map (cell ?r') required_fields = map (cell ?r) required_fields"
    proof (rule map_cong [OF refl])
      fix k
      assume k: "k \<in> set required_fields"
      from val [OF k] obtain v where v: "map_of (ds ! i) k = Some v"
        by blast
      from s k have "int_column ds k = int_column [ds ! i] k"
        by (auto simp: same_dtypes_def list_all_iff)
      then show "cell ?r' k = cell ?r k"
        unfolding record_row_cell [OF v] batch_row_cell [OF assms(1) v]
        by (simp add: int_column_single v astype_float_Float64)
    qed
    from engineer_row_cong [OF this] show ?thesis
      by simp
  qed
  then show "features ?r' = record_features (ds ! i)"
    and "to_float (cell (engineer_row ?r') ''Ac'') = to_float (cell (engineer_row ?r) ''Ac'')"
    by (simp_all add: features_def record_features_def)
qed

text \<open>
  Claim C2, as amended. Take a record with the required fields, and a list of records that
  holds it at position \<open>i\<close>, such that the integers of the record's required fields are below
  one million in absolute value, or the batch gives every required column the dtype of the
  record's own value. Then \<open>predict_single\<close> on the record and \<open>predict_batch\<close> on the list
  both return, batch mode having called the regressor and single mode only for a label
  other than 0; row \<open>i\<close> of the batch has the classifier's label for the record, which is
  1 exactly when the single result is Feasible, and the same probability; and for a label
  of 0 or 1 it has the same predicted ratio and the same predicted steel area as the single
  result.
\<close>

theorem batch_agrees_with_single:
  assumes "get_dict w p = Some d" and "set required_fields \<subseteq> fst ` set d"
    and "get_dicts w ps = Some ds" and "i < length ds" and "ds ! i = d"
    and "small_ints d \<or> same_dtypes d ds"
  shows "\<exists>w1 res w2 tab.
           predict_single m w p = (w1, Inr res) \<and> predict_batch m w ps = (w2, Inr tab)
           \<and> length tab = length ds
           \<and> calls w2 = calls w @ [Classifier_predict, Classifier_predict_proba, Regressor_predict]
           \<and> calls w1 = calls w @ (if classifier_predict m (record_features d) = 0
                                   then [Classifier_predict, Classifier_predict_proba]
                                   else [Classifier_predict, Classifier_predict_proba,
                                         Regressor_predict])
           \<and> is_feasible (tab ! i) = classifier_predict m (record_features d)
           \<and> (status res = ''Feasible'') = (is_feasible (tab ! i) = 1)
           \<and> feasibility_prob res = prob_feasible (tab ! i)
           \<and> (is_feasible (tab ! i) \<in> {0, 1} \<longrightarrow>
                 (status res = ''Infeasible'') = (is_feasible (tab ! i) = 0)
                 \<and> rho_predicted res = rho_predicted (tab ! i)
                 \<and> As_predicted res = As_predicted (tab ! i))"
proof -
  have "d \<in> set ds"
    using assms(4,5) nth_mem by blast
  then have "fst ` set d \<subseteq> set (columns (frame_of_dicts ds))"
    by (auto simp: set_columns_frame_of_dicts)
  with assms(2) have cols: "set required_fields \<subseteq> set (columns (frame_of_dicts ds))"
    by blast
  have len: "length (rows (frame_of_dicts ds)) = length ds"
    by (simp add: rows_frame_of_dicts)
  have n: "i < length (rows (frame_of_dicts ds))"
    using assms(4) by (simp add: len)
  have v: "set required_fields \<subseteq> fst ` set (ds ! i)"
    using assms(2,5) by simp
  have s: "small_ints (ds ! i) \<or> same_dtypes (ds ! i) ds"
    using assms(5,6) by simp
  note agree = valid_record_features_agree [OF assms(4) v s, unfolded assms(5)]
  show ?thesis
    unfolding predict_single_ok [OF assms(1,2)] predict_batch_ok [OF assms(3) cols]
    by (intro exI conjI, rule refl, rule refl)
       (auto simp add: length_batch_table len batch_table_nth [OF n] agree single_table_def
          single_calls_def Let_def)
qed

text \<open>
  Claim C2 as stated fails for a batch that changes the dtype of a column. The record with
  a width and a height of \<open>2^32\<close>, both integers, is feasible with a predicted ratio of 0.01
  in both modes. Alone, its section area is the integer product, which wraps around to 0,
  and the predicted steel area is 0. In a batch with a record whose width and height are
  floats, the two columns are float64, the area is \<open>2^64\<close> and the predicted steel area is
  one hundredth of it.
\<close>

theorem dtype_promotion_counterexample:
  "get_dict huge_world 0 = Some huge_pillar
   \<and> get_dicts huge_world [0, 1] = Some [huge_pillar, float_pillar]
   \<and> set required_fields \<subseteq> fst ` set huge_pillar
   \<and> set required_fields \<subseteq> fst ` set float_pillar
   \<and> snd (predict_single demo_models huge_world 0) = Inr (single_table demo_models huge_pillar)
   \<and> snd (predict_batch demo_models huge_world [0, 1])
        = Inr (batch_table demo_models (frame_of_dicts [huge_pillar, float_pillar]))
   \<and> status (single_table demo_models huge_pillar) = ''Feasible''
   \<and> is_feasible (batch_table demo_models (frame_of_dicts [huge_pillar, float_pillar]) ! 0) = 1
   \<and> rho_predicted (single_table demo_models huge_pillar) = Float64 (Num 0.01)
   \<and> rho_predicted (batch_table demo_models (frame_of_dicts [huge_pillar, float_pillar]) ! 0)
        = Float64 (Num 0.01)
   \<and> Ac (single_table demo_models huge_pillar) = Int64 0
   \<and> Ac (batch_table demo_models (frame_of_dicts [huge_pillar, float_pillar]) ! 0)
        = Float64 (Num 18446744073709551616)
   \<and> As_predicted (single_table demo_models huge_pillar) = Float64 (Num 0)
   \<and> As_predicted (batch_table demo_models (frame_of_dicts [huge_pillar, float_pillar]) ! 0)
        = Float64 (Num 184467440737095516.16)"
proof (intro conjI)
  let ?ds = "[huge_pillar, float_pillar]"
  show "get_dict huge_world 0 = Some huge_pillar"
    "get_dicts huge_world [0, 1] = Some ?ds"
    by (rule huge_world_dicts)+
  show "set required_fields \<subseteq> fst ` set huge_pillar"
    "set required_fields \<subseteq> fst ` set float_pillar"
    by (rule valid_examples)+
  show "snd (predict_single demo_models huge_world 0) = Inr (single_table demo_models huge_pillar)"
    by (simp add: predict_single_ok [OF huge_world_dicts(1) valid_examples(3)])
  have cols: "set required_fields \<subseteq> set (columns (frame_of_dicts ?ds))"
    using valid_examples(3) by (auto simp: set_columns_frame_of_dicts)
  show "snd (predict_batch demo_models huge_world [0, 1])
          = Inr (batch_table demo_models (frame_of_dicts ?ds))"
    unfolding predict_batch_ok [OF huge_world_dicts(2) cols] by simp
  have ac: "cell (engineer_row (record_row huge_pillar)) ''Ac'' = Int64 0"
    by (simp add: engineer_row_Ac cells_huge_pillar)
  show "status (single_table demo_models huge_pillar) = ''Feasible''"
    "rho_predicted (single_table demo_models huge_pillar) = Float64 (Num 0.01)"
    by (simp_all add: single_table_def Let_def demo_labels demo_models_simps(3))
  show "Ac (single_table demo_models huge_pillar) = Int64 0"
    by (simp add: single_table_def Let_def ac)
  show "As_predicted (single_table demo_models huge_pillar) = Float64 (Num 0)"
    by (simp add: single_table_def Let_def demo_labels demo_models_simps(3) ac fl_small)
  have n: "0 < length (rows (frame_of_dicts ?ds))"
    by (simp add: rows_frame_of_dicts)
  have ic: "int_column ?ds ''N_top''" "\<not> int_column ?ds ''largura''"
    "\<not> int_column ?ds ''Altura''"
    by (simp_all add: int_column_def example_fields)
  have c: "cell (rows (frame_of_dicts ?ds) ! 0) ''N_top'' = Int64 392"
    "cell (rows (frame_of_dicts ?ds) ! 0) ''largura'' = Float64 (Num 4294967296)"
    "cell (rows (frame_of_dicts ?ds) ! 0) ''Altura'' = Float64 (Num 4294967296)"
    using batch_row_cell [of 0 "?ds"] by (simp_all add: example_fields ic astype_float_def)
  have l: "classifier_predict demo_models (features (rows (frame_of_dicts ?ds) ! 0)) = 1"
    by (simp add: demo_models_simps features_N_top c)
  have a: "cell (engineer_row (rows (frame_of_dicts ?ds) ! 0)) ''Ac''
             = Float64 (Num 18446744073709551616)"
    by (simp add: engineer_row_Ac c fl_small)
  show "is_feasible (batch_table demo_models (frame_of_dicts ?ds) ! 0) = 1"
    "rho_predicted (batch_table demo_models (frame_of_dicts ?ds) ! 0) = Float64 (Num 0.01)"
    "Ac (batch_table demo_models (frame_of_dicts ?ds) ! 0) = Float64 (Num 18446744073709551616)"
    "As_predicted (batch_table demo_models (frame_of_dicts ?ds) ! 0)
       = Float64 (Num 184467440737095516.16)"
    by (simp_all add: batch_table_nth [OF n] l a demo_models_simps(3) fl_small)
qed

lemma small_examples: "small_ints scenario_A" "small_ints extreme_pillar"
  by (simp_all add: small_ints_def required_fields_def scenario_A_def extreme_pillar_def)

theorem batch_agrees_with_single_witness:
  "get_dict two_pillars_world 0 = Some scenario_A
   \<and> get_dict two_pillars_world 1 = Some extreme_pillar
   \<and> set required_fields \<subseteq> fst ` set scenario_A
   \<and> set required_fields \<subseteq> fst ` set extreme_pillar
   \<and> get_dicts two_pillars_world [0, 1] = Some [scenario_A, extreme_pillar]
   \<and> small_ints scenario_A \<and> small_ints extreme_pillar
   \<and> (\<exists>w1 res w2 tab.
         predict_single demo_models two_pillars_world 0 = (w1, Inr res)
         \<and> predict_batch demo_models two_pillars_world [0, 1] = (w2, Inr tab)
         \<and> is_feasible (tab ! 0) = 1 \<and> status res = ''Feasible''
         \<and> feasibility_prob res = prob_feasible (tab ! 0)
         \<and> rho_predicted res = rho_predicted (tab ! 0)
         \<and> As_predicted res = As_predicted (tab ! 0)
         \<and> calls w1 = [Classifier_predict, Classifier_predict_proba, Regressor_predict])
   \<and> (\<exists>w1 res w2 tab.
         predict_single demo_models two_pillars_world 1 = (w1, Inr res)
         \<and> predict_batch demo_models two_pillars_world [0, 1] = (w2, Inr tab)
         \<and> is_feasible (tab ! 1) = 0 \<and> status res = ''Infeasible''
         \<and> feasibility_prob res = prob_feasible (tab ! 1)
         \<and> rho_predicted res = rho_predicted (tab ! 1)
         \<and> As_predicted res = As_predicted (tab ! 1)
         \<and> calls w1 = [Classifier_predict, Classifier_predict_proba]
         \<and> calls w2 = [Classifier_predict, Classifier_predict_proba, Regressor_predict])"
proof -
  let ?ds = "[scenario_A, extreme_pillar]"
  have i0: "(0::nat) < length ?ds" "?ds ! 0 = scenario_A"
    and i1: "(1::nat) < length ?ds" "?ds ! 1 = extreme_pillar"
    by simp_all
  note t0 = batch_agrees_with_single [OF two_pillars_world_dicts(1) valid_examples(1)
      two_pillars_world_dicts(3) i0 disjI1 [OF small_examples(1)], of demo_models]
  note t1 = batch_agrees_with_single [OF two_pillars_world_dicts(2) valid_examples(2)
      two_pillars_world_dicts(3) i1 disjI1 [OF small_examples(2)], of demo_models]
  from t0 have w0: "\<exists>w1 res w2 tab.
         predict_single demo_models two_pillars_world 0 = (w1, Inr res)
         \<and> predict_batch demo_models two_pillars_world [0, 1] = (w2, Inr tab)
         \<and> is_feasible (tab ! 0) = 1 \<and> status res = ''Feasible''
         \<and> feasibility_prob res = prob_feasible (tab ! 0)
         \<and> rho_predicted res = rho_predicted (tab ! 0)
         \<and> As_predicted res = As_predicted (tab ! 0)
         \<and> calls w1 = [Classifier_predict, Classifier_predict_proba, Regressor_predict]"
    by (simp add: demo_labels two_pillars_world_dicts(4)) blast
  from t1 have w1: "\<exists>w1 res w2 tab.
         predict_single demo_models two_pillars_world 1 = (w1, Inr res)
         \<and> predict_batch demo_models two_pillars_world [0, 1] = (w2, Inr tab)
         \<and> is_feasible (tab ! 1) = 0 \<and> status res = ''Infeasible''
         \<and> feasibility_prob res = prob_feasible (tab ! 1)
         \<and> rho_predicted res = rho_predicted (tab ! 1)
         \<and> As_predicted res = As_predicted (tab ! 1)
         \<and> calls w1 = [Classifier_predict, Classifier_predict_proba]
         \<and> calls w2 = [Classifier_predict, Classifier_predict_proba, Regressor_predict]"
    by (simp add: demo_labels two_pillars_world_dicts(4)) blast
  show ?thesis
    by (intro conjI two_pillars_world_dicts(1,2,3) valid_examples(1,2) small_examples w0 w1)
qed

section \<open>Errors of the batch prediction\<close>

lemma predict_batch_missing_raw:
  assumes "get_dicts w refs = Some ds"
    and "first_missing (columns (frame_of_dicts ds)) raw_columns = Some k"
  shows "predict_batch m w refs =
           (w\<lparr>objs := objs w @ [DataFrame (frame_of_dicts ds), DataFrame (frame_of_dicts ds),
                                 DataFrame (frame_of_dicts ds)]\<rparr>,
            Inl (KeyError k))"
proof -
  define f0 where "f0 = frame_of_dicts ds"
  define w1 where "w1 = w\<lparr>objs := objs w @ [DataFrame f0]\<rparr>"
  have g1: "get_frame w1 (length (objs w)) = Some f0"
    by (simp add: w1_def get_frame_def)
  have p: "process_pillar_data w1 (length (objs w)) =
             (w1\<lparr>objs := objs w1 @ [DataFrame f0, DataFrame f0]\<rparr>, Inl (KeyError k))"
    using assms(2) by (intro process_pillar_data_missing [OF g1]) (simp add: f0_def)
  show ?thesis
    using assms(1) p
    by (simp add: predict_batch_def alloc_def f0_def [symmetric] w1_def)
qed

lemma predict_batch_missing_feature:
  assumes "get_dicts w refs = Some ds"
    and "set raw_columns \<subseteq> set (columns (frame_of_dicts ds))"
    and "first_missing (columns (engineer_frame (frame_of_dicts ds))) FEATURE_COLUMNS = Some k"
  shows "predict_batch m w refs =
           (w\<lparr>objs := objs w @ [DataFrame (frame_of_dicts ds), DataFrame (frame_of_dicts ds),
                                 DataFrame (engineer_frame (frame_of_dicts ds))]\<rparr>,
            Inl (KeyError k))"
proof -
  define f0 where "f0 = frame_of_dicts ds"
  define w1 where "w1 = w\<lparr>objs := objs w @ [DataFrame f0]\<rparr>"
  have g1: "get_frame w1 (length (objs w)) = Some f0"
    by (simp add: w1_def get_frame_def)
  have p: "process_pillar_data w1 (length (objs w)) =
             (w1\<lparr>objs := objs w1 @ [DataFrame f0, DataFrame (engineer_frame f0)]\<rparr>,
              Inr (Suc (length (objs w1))))"
    using assms(2) by (intro process_pillar_data_ok [OF g1]) (simp add: f0_def)
  have sel: "select_columns (engineer_frame f0) FEATURE_COLUMNS = Inl (KeyError k)"
    using assms(3) by (simp add: select_columns_missing f0_def)
  show ?thesis
    using assms(1) p sel
    by (simp add: predict_batch_def alloc_def f0_def [symmetric] w1_def get_frame_def nth_append)
qed

lemma predict_batch_fails:
  assumes "get_dicts w refs = Some ds"
    and "\<not> set required_fields \<subseteq> set (columns (frame_of_dicts ds))"
  shows "\<exists>w' k. predict_batch m w refs = (w', Inl (KeyError k))
           \<and> k \<in> set required_fields \<and> k \<notin> set (columns (frame_of_dicts ds))"
proof (cases "first_missing (columns (frame_of_dicts ds)) raw_columns")
  case (Some k)
  then have "k \<in> set required_fields \<and> k \<notin> set (columns (frame_of_dicts ds))"
    using first_missing_Some raw_subset_required by blast
  with predict_batch_missing_raw [OF assms(1) Some] show ?thesis
    by blast
next
  case None
  then have raw: "set raw_columns \<subseteq> set (columns (frame_of_dicts ds))"
    by (simp add: first_missing_None)
  let ?E = "engineer_frame (frame_of_dicts ds)"
  have cE: "set (columns ?E) = set engineered_columns \<union> set (columns (frame_of_dicts ds))"
    by (simp add: engineer_frame_def set_fold_add_column)
  have "\<not> set FEATURE_COLUMNS \<subseteq> set (columns ?E)"
  proof
    assume a: "set FEATURE_COLUMNS \<subseteq> set (columns ?E)"
    have "set required_fields \<subseteq> set FEATURE_COLUMNS"
      by (simp add: required_fields_def FEATURE_COLUMNS_def)
    moreover have "set required_fields \<inter> set engineered_columns = {}"
      by (simp add: required_fields_def engineered_columns_def)
    ultimately have "set required_fields \<subseteq> set (columns (frame_of_dicts ds))"
      using a cE by blast
    with assms(2) show False
      by simp
  qed
  then obtain k where k: "first_missing (columns ?E) FEATURE_COLUMNS = Some k"
    by (cases "first_missing (columns ?E) FEATURE_COLUMNS") (simp_all add: first_missing_None)
  then have "k \<in> set FEATURE_COLUMNS" "k \<notin> set (columns ?E)"
    using first_missing_Some by blast+
  then have "k \<in> set required_fields \<and> k \<notin> set (columns (frame_of_dicts ds))"
    using FEATURE_COLUMNS_split cE by blast
  with predict_batch_missing_feature [OF assms(1) raw k] show ?thesis
    by blast
qed

lemma mixed_world_dicts:
  "get_dicts mixed_world [0, 1] = Some [scenario_A, incomplete_pillar]"
  by (simp add: mixed_world_def world_of_dicts_def get_dict_def)

lemma mixed_columns:
  "set required_fields \<subseteq> set (columns (frame_of_dicts [scenario_A, incomplete_pillar]))"
  using valid_examples(1) by (auto simp: set_columns_frame_of_dicts)

text \<open>
  Claim C8, as amended. \<open>predict_batch\<close> on the empty list fails with KeyError, the first
  column read being absent. On a list of records it fails with KeyError, and returns no
  results, when some required field is missing from every record. When every required
  field occurs in at least one record it does not fail: it returns a row for every record,
  those with missing fields included.
\<close>

theorem batch_fails_only_on_absent_columns:
  "(\<exists>w'. predict_batch m w [] = (w', Inl (KeyError ''largura'')))
   \<and> (get_dicts w ps = Some ds \<longrightarrow>
        ((\<exists>k\<in>set required_fields. \<forall>d\<in>set ds. k \<notin> fst ` set d) \<longrightarrow>
           (\<exists>w' k. predict_batch m w ps = (w', Inl (KeyError k))
              \<and> k \<in> set required_fields \<and> (\<forall>d\<in>set ds. k \<notin> fst ` set d)))
        \<and> ((\<forall>k\<in>set required_fields. \<exists>d\<in>set ds. k \<in> fst ` set d) \<longrightarrow>
           (\<exists>w' tab. predict_batch m w ps = (w', Inr tab) \<and> length tab = length ds)))"
proof (intro conjI impI)
  have g: "get_dicts w [] = Some []"
    by simp
  have "first_missing (columns (frame_of_dicts [])) raw_columns = Some ''largura''"
    by (simp add: frame_of_dicts_def raw_columns_def)
  from predict_batch_missing_raw [OF g this]
  show "\<exists>w'. predict_batch m w [] = (w', Inl (KeyError ''largura''))"
    by blast
next
  assume d: "get_dicts w ps = Some ds"
    and "\<exists>k\<in>set required_fields. \<forall>d\<in>set ds. k \<notin> fst ` set d"
  then have "\<not> set required_fields \<subseteq> set (columns (frame_of_dicts ds))"
    unfolding set_columns_frame_of_dicts by blast
  from predict_batch_fails [OF d this]
  show "\<exists>w' k. predict_batch m w ps = (w', Inl (KeyError k))
          \<and> k \<in> set required_fields \<and> (\<forall>d\<in>set ds. k \<notin> fst ` set d)"
    by (auto simp: set_columns_frame_of_dicts)
next
  assume d: "get_dicts w ps = Some ds"
    and "\<forall>k\<in>set required_fields. \<exists>d\<in>set ds. k \<in> fst ` set d"
  then have "set required_fields \<subseteq> set (columns (frame_of_dicts ds))"
    by (auto simp: set_columns_frame_of_dicts)
  from predict_batch_ok [OF d this]
  show "\<exists>w' tab. predict_batch m w ps = (w', Inr tab) \<and> length tab = length ds"
    by (simp add: length_batch_table rows_frame_of_dicts)
qed

text \<open>
  Claim C8 as stated fails for a record that lacks a field another record has: the batch of
  Scenario A and of the same record without \<open>largura\<close> returns two rows, the second with
  NaN for \<open>Ac\<close> and for the predicted steel area.
\<close>

theorem incomplete_row_counterexample:
  "''largura'' \<in> set required_fields
   \<and> map_of incomplete_pillar ''largura'' = None
   \<and> predict_batch demo_models mixed_world [0, 1]
       = (mixed_world\<lparr>objs := objs mixed_world
              @ [DataFrame (frame_of_dicts [scenario_A, incomplete_pillar]),
                 DataFrame (frame_of_dicts [scenario_A, incomplete_pillar]),
                 DataFrame (engineer_frame (frame_of_dicts [scenario_A, incomplete_pillar]))],
            calls := calls mixed_world
              @ [Classifier_predict, Classifier_predict_proba, Regressor_predict]\<rparr>,
          Inr (batch_table demo_models (frame_of_dicts [scenario_A, incomplete_pillar])))
   \<and> length (batch_table demo_models (frame_of_dicts [scenario_A, incomplete_pillar])) = 2
   \<and> is_feasible (batch_table demo_models (frame_of_dicts [scenario_A, incomplete_pillar]) ! 1) = 1
   \<and> Ac (batch_table demo_models (frame_of_dicts [scenario_A, incomplete_pillar]) ! 1) = Float64 NaN
   \<and> As_predicted (batch_table demo_models (frame_of_dicts [scenario_A, incomplete_pillar]) ! 1)
       = Float64 NaN"
proof (intro conjI)
  let ?F = "frame_of_dicts [scenario_A, incomplete_pillar]"
  show "''largura'' \<in> set required_fields"
    by (simp add: required_fields_def)
  show "map_of incomplete_pillar ''largura'' = None"
    by (simp add: incomplete_pillar_def)
  show "predict_batch demo_models mixed_world [0, 1]
       = (mixed_world\<lparr>objs := objs mixed_world @ [DataFrame ?F, DataFrame ?F,
                 DataFrame (engineer_frame ?F)],
            calls := calls mixed_world
              @ [Classifier_predict, Classifier_predict_proba, Regressor_predict]\<rparr>,
          Inr (batch_table demo_models ?F))"
    by (rule predict_batch_ok [OF mixed_world_dicts mixed_columns])
  have n: "length (rows ?F) = 2"
    by (simp add: rows_frame_of_dicts)
  then show "length (batch_table demo_models ?F) = 2"
    by (simp add: length_batch_table)
  have n1: "Suc 0 < length (rows ?F)"
    using n by simp
  have mem: "''largura'' \<in> set (columns ?F)" "''Altura'' \<in> set (columns ?F)"
    "''N_top'' \<in> set (columns ?F)"
    using mixed_columns by (auto simp: required_fields_def)
  have mo: "map_of incomplete_pillar ''largura'' = None"
    "map_of incomplete_pillar ''Altura'' = Some (Int64 95)"
    "map_of incomplete_pillar ''N_top'' = Some (Int64 392)"
    by (simp_all add: incomplete_pillar_def)
  have r1: "rows ?F ! Suc 0 = row_of_dict [scenario_A, incomplete_pillar] (columns ?F) incomplete_pillar"
    by (simp add: rows_frame_of_dicts)
  have c: "cell (rows ?F ! Suc 0) ''largura'' = Float64 NaN"
    "cell (rows ?F ! Suc 0) ''Altura'' = Int64 95"
    "cell (rows ?F ! Suc 0) ''N_top'' = Int64 392"
    unfolding r1
    by (simp_all add: cell_row_of_dict mem mo int_column_def example_fields)
  have l: "classifier_predict demo_models (features (rows ?F ! Suc 0)) = 1"
    by (simp add: demo_models_simps features_N_top c)
  have "is_feasible (batch_table demo_models ?F ! Suc 0) = 1"
    "Ac (batch_table demo_models ?F ! Suc 0) = Float64 NaN"
    "As_predicted (batch_table demo_models ?F ! Suc 0) = Float64 NaN"
    by (simp_all add: batch_table_nth [OF n1] l engineer_row_Ac c demo_models_simps(3))
  then show "is_feasible (batch_table demo_models ?F ! 1) = 1"
    "Ac (batch_table demo_models ?F ! 1) = Float64 NaN"
    "As_predicted (batch_table demo_models ?F ! 1) = Float64 NaN"
    by simp_all
qed

theorem batch_fails_only_on_absent_columns_witness:
  "(\<exists>w'. predict_batch demo_models (world_of_dicts [incomplete_pillar]) [] 
           = (w', Inl (KeyError ''largura'')))
   \<and> get_dicts (world_of_dicts [incomplete_pillar]) [0] = Some [incomplete_pillar]
   \<and> (\<exists>k\<in>set required_fields. \<forall>d\<in>set [incomplete_pillar]. k \<notin> fst ` set d)
   \<and> (\<exists>w' k. predict_batch demo_models (world_of_dicts [incomplete_pillar]) [0]
                 = (w', Inl (KeyError k))
         \<and> k \<in> set required_fields \<and> (\<forall>d\<in>set [incomplete_pillar]. k \<notin> fst ` set d))
   \<and> get_dicts mixed_world [0, 1] = Some [scenario_A, incomplete_pillar]
   \<and> set required_fields \<subseteq> fst ` set scenario_A
   \<and> (\<exists>w' tab. predict_batch demo_models mixed_world [0, 1] = (w', Inr tab)
         \<and> length tab = length [scenario_A, incomplete_pillar])"
proof -
  have g1: "get_dicts (world_of_dicts [incomplete_pillar]) [0] = Some [incomplete_pillar]"
    by (simp add: world_of_dicts_def get_dict_def)
  have m1: "\<exists>k\<in>set required_fields. \<forall>d\<in>set [incomplete_pillar]. k \<notin> fst ` set d"
    by (simp add: required_fields_def incomplete_pillar_def)
  have m2: "\<forall>k\<in>set required_fields. \<exists>d\<in>set [scenario_A, incomplete_pillar]. k \<in> fst ` set d"
    using valid_examples(1) by auto
  note t1 = batch_fails_only_on_absent_columns
    [of demo_models "world_of_dicts [incomplete_pillar]" "[0]" "[incomplete_pillar]"]
  note t2 = batch_fails_only_on_absent_columns
    [of demo_models mixed_world "[0, 1]" "[scenario_A, incomplete_pillar]"]
  have a: "\<exists>w'. predict_batch demo_models (world_of_dicts [incomplete_pillar]) []
                = (w', Inl (KeyError ''largura''))"
    using t1 by (rule conjunct1)
  have b: "\<exists>w' k. predict_batch demo_models (world_of_dicts [incomplete_pillar]) [0]
                 = (w', Inl (KeyError k))
         \<and> k \<in> set required_fields \<and> (\<forall>d\<in>set [incomplete_pillar]. k \<notin> fst ` set d)"
    using t1 [THEN conjunct2, THEN mp, OF g1, THEN conjunct1, THEN mp, OF m1] .
  have c: "\<exists>w' tab. predict_batch demo_models mixed_world [0, 1] = (w', Inr tab)
         \<and> length tab = length [scenario_A, incomplete_pillar]"
    using t2 [THEN conjunct2, THEN mp, OF mixed_world_dicts, THEN conjunct2, THEN mp, OF m2] .
  show ?thesis
    by (intro conjI a g1 m1 b mixed_world_dicts valid_examples(1) c)
qed

section \<open>The optimizer: the grid of candidates\<close>
























section \<open>The optimizer: costs and ranking\<close>





























































end
